theory Spec2Isabelle
  imports Complex_Main "HOL-Library.AList"
begin

section \<open>Browser pool service: sessions, pool manager and the two control planes\<close>

text \<open>
  The development follows the Node.js browser pool service: the classes
  \<^verbatim>\<open>BrowserSession\<close> and \<^verbatim>\<open>BrowserPool\<close>, the method interception of
  \<^verbatim>\<open>BrowserPoolService.setupEventBroadcasting\<close>, the gRPC handlers of
  \<^verbatim>\<open>BrowserPoolGrpcServer\<close> and \<^verbatim>\<open>BrowserPoolWebSocketServer.handleBrowserAction\<close>.

  Conventions of the embedding.
  \<^item> A JavaScript \<^verbatim>\<open>Map\<close> is an association list in insertion order:
    \<^verbatim>\<open>set\<close> is \<open>AList.update\<close> (an existing key keeps its place, a new key goes
    to the end), \<^verbatim>\<open>delete\<close> is \<open>AList.delete\<close>, \<^verbatim>\<open>get\<close> is \<open>map_of\<close>,
    \<^verbatim>\<open>size\<close> is \<open>length\<close> (the keys of every table built by the operations are
    distinct, lemma \<open>run_distinct\<close>).
  \<^item> The browser engine (Playwright) is external. Every call to it is answered by an
    \<open>engine\<close> record of outcome functions, and the calls issued are appended to the
    \<open>engineCalls\<close> trace of the state. A rejected promise is \<open>Inl msg\<close> or \<open>Some msg\<close>.
    An argument that may be \<^verbatim>\<open>undefined\<close> is an option, and \<^verbatim>\<open>page.goto\<close> resolves
    to the final URL of its response, or to \<open>None\<close> for a \<^verbatim>\<open>null\<close> response.
  \<^item> \<^verbatim>\<open>new Date()\<close> and \<^verbatim>\<open>uuidv4()\<close> are inputs of the operation that reads them;
    times are integers in milliseconds.
  \<^item> An operation function runs one call to completion, and \<open>run\<close> applies calls one
    after another. The source's methods are \<^verbatim>\<open>async\<close> and yield at every \<^verbatim>\<open>await\<close>;
    for \<^verbatim>\<open>createSession\<close> the segments between its \<^verbatim>\<open>await\<close>s are functions of
    their own (\<open>createSession_begin\<close>, \<open>createSession_launched\<close>,
    \<open>createSession_register\<close>), so that calls which overlap can be run segment by
    segment.
  \<^item> A thrown \<^verbatim>\<open>Error\<close> is identified by the statement that throws it.
\<close>

subsection \<open>Handles, errors, the engine boundary\<close>

type_synonym browser_h = nat
type_synonym context_h = nat
type_synonym page_h = nat

datatype error =
    PoolAtCapacity
  | SessionNotFound string
  | PageNotFound
  | UnknownAction string
  | TypeError string
  | UnsupportedBrowserType string
  | EngineError string

fun message :: "error \<Rightarrow> string" where
  "message PoolAtCapacity = ''Browser pool at capacity''"
| "message (SessionNotFound sid) = ''Session '' @ sid @ '' not found''"
| "message PageNotFound = ''Page not found''"
| "message (UnknownAction a) = ''Unknown browser action: '' @ a"
| "message (TypeError m) = m"
| "message (UnsupportedBrowserType t) = ''Unsupported browser type: '' @ t"
| "message (EngineError m) = m"

record engine =
  launch :: "string + browser_h"
  newContext :: "browser_h \<Rightarrow> string + context_h"
  newPage :: "context_h \<Rightarrow> string + page_h"
  page_goto :: "page_h \<Rightarrow> string option \<Rightarrow> int option \<Rightarrow> string + string option"
  page_title :: "page_h \<Rightarrow> string + string"
  page_click :: "page_h \<Rightarrow> string option \<Rightarrow> int option \<Rightarrow> string option"
  page_fill :: "page_h \<Rightarrow> string option \<Rightarrow> string option \<Rightarrow> int option \<Rightarrow> string option"
  page_close :: "page_h \<Rightarrow> string option"
  context_close :: "context_h \<Rightarrow> string option"

datatype engine_call =
    Launch
  | NewContext browser_h
  | NewPage context_h
  | Goto page_h "string option" "int option"
  | Title page_h
  | Click page_h "string option" "int option"
  | Fill page_h "string option" "string option" "int option"
  | PageClose page_h
  | ContextClose context_h

text \<open>JavaScript truthiness of a string argument that may be \<^verbatim>\<open>null\<close>/\<^verbatim>\<open>undefined\<close>.\<close>

fun truthy :: "string option \<Rightarrow> bool" where
  "truthy None = False"
| "truthy (Some u) = (u \<noteq> [])"

subsection \<open>Configuration (class Config)\<close>

text \<open>
  The numeric settings are the integers that \<^verbatim>\<open>parseInt\<close> produced from the
  environment; a setting that does not parse (\<^verbatim>\<open>NaN\<close>) is not represented.
\<close>

record Config =
  MAX_BROWSERS :: int
  BROWSER_TIMEOUT :: int
  MAX_PAGE_LOAD_TIME :: int
  VIEWPORT_WIDTH :: int
  VIEWPORT_HEIGHT :: int
  BROWSER_TYPE :: string

subsection \<open>class BrowserSession\<close>

record BrowserSession =
  sessionId :: string
  browserContext :: context_h
  createdAt :: int
  lastActivity :: int
  pages :: "(string \<times> page_h) list"
  metadata :: "(string \<times> string) list"

definition BrowserSession_new :: "string \<Rightarrow> context_h \<Rightarrow> int \<Rightarrow> BrowserSession" where
  "BrowserSession_new sid c created =
     \<lparr>sessionId = sid, browserContext = c, createdAt = created, lastActivity = created,
      pages = [], metadata = []\<rparr>"

text \<open>\<^verbatim>\<open>addPage(page)\<close>: \<open>pid\<close> is the \<^verbatim>\<open>uuidv4()\<close> drawn, \<open>now\<close> the clock.\<close>

definition addPage :: "string \<Rightarrow> int \<Rightarrow> page_h \<Rightarrow> BrowserSession \<Rightarrow> string \<times> BrowserSession" where
  "addPage pid now pg s =
     (pid, s\<lparr>pages := AList.update pid pg (pages s), lastActivity := now\<rparr>)"

definition session_getPage :: "string \<Rightarrow> BrowserSession \<Rightarrow> page_h option" where
  "session_getPage pid s = map_of (pages s) pid"

definition removePage :: "string \<Rightarrow> int \<Rightarrow> BrowserSession \<Rightarrow> bool \<times> BrowserSession" where
  "removePage pid now s =
     (let removed = (pid \<in> fst ` set (pages s));
          s1 = s\<lparr>pages := AList.delete pid (pages s)\<rparr>
      in if removed then (True, s1\<lparr>lastActivity := now\<rparr>) else (False, s1))"

text \<open>
  \<^verbatim>\<open>close()\<close>. The inner \<^verbatim>\<open>try\<close> around each \<^verbatim>\<open>page.close()\<close> drops the error and
  goes on with the next page; \<open>closePages\<close> is that loop and returns the calls issued.
  \<open>session_close_body\<close> is the body of the outer \<^verbatim>\<open>try\<close>, which can still throw from
  \<^verbatim>\<open>context.close()\<close>; \<open>session_close\<close> adds the outer \<^verbatim>\<open>catch\<close>.
\<close>

fun closePages :: "engine \<Rightarrow> (string \<times> page_h) list \<Rightarrow> engine_call list" where
  "closePages eng [] = []"
| "closePages eng ((pid, pg) # ps) =
     (case page_close eng pg of
        None \<Rightarrow> PageClose pg # closePages eng ps
      | Some err \<Rightarrow> PageClose pg # closePages eng ps)"

definition session_close_body ::
  "engine \<Rightarrow> BrowserSession \<Rightarrow> (error + unit) \<times> BrowserSession \<times> engine_call list" where
  "session_close_body eng s =
     (let cs = closePages eng (pages s);
          s1 = s\<lparr>pages := []\<rparr>
      in case context_close eng (browserContext s) of
           Some err \<Rightarrow> (Inl (EngineError err), s1, cs @ [ContextClose (browserContext s)])
         | None \<Rightarrow> (Inr (), s1, cs @ [ContextClose (browserContext s)]))"

definition session_close ::
  "engine \<Rightarrow> BrowserSession \<Rightarrow> (error + unit) \<times> BrowserSession \<times> engine_call list" where
  "session_close eng s =
     (case session_close_body eng s of
        (Inl err, s1, cs) \<Rightarrow> (Inr (), s1, cs)
      | (Inr u, s1, cs) \<Rightarrow> (Inr u, s1, cs))"

definition isExpired :: "int \<Rightarrow> int \<Rightarrow> BrowserSession \<Rightarrow> bool" where
  "isExpired now timeoutSeconds s =
     (real_of_int (now - lastActivity s) / 1000 > real_of_int timeoutSeconds)"

subsection \<open>class BrowserPool and the process state\<close>

record BrowserPool =
  maxBrowsers :: int
  browserTimeout :: int
  browsers :: "browser_h list"
  activeSessions :: "(string \<times> BrowserSession) list"

definition BrowserPool_new :: "Config \<Rightarrow> BrowserPool" where
  "BrowserPool_new c =
     \<lparr>maxBrowsers = MAX_BROWSERS c, browserTimeout = BROWSER_TIMEOUT c,
      browsers = [], activeSessions = []\<rparr>"

text \<open>
  Payloads handed to \<^verbatim>\<open>BrowserPoolWebSocketServer.broadcast(topic, payload)\<close>; the
  state keeps the list of those calls as (topic, payload) pairs.
\<close>

datatype payload =
    SessionCreatedP string "(string \<times> string) list"
  | SessionClosedP string
  | PageCreatedP string string "string option"
  | PageClosedP string string
  | BrowserActionP string "string option" "string option" string int

type_synonym broadcast_msg = "string \<times> payload"

record service =
  browserPool :: BrowserPool
  engineCalls :: "engine_call list"
  wsBroadcasts :: "broadcast_msg list"

definition service_new :: "Config \<Rightarrow> service" where
  "service_new c = \<lparr>browserPool = BrowserPool_new c, engineCalls = [], wsBroadcasts = []\<rparr>"

definition sessions :: "service \<Rightarrow> (string \<times> BrowserSession) list" where
  "sessions s = activeSessions (browserPool s)"

definition set_sessions :: "(string \<times> BrowserSession) list \<Rightarrow> service \<Rightarrow> service" where
  "set_sessions ss s = s\<lparr>browserPool := (browserPool s)\<lparr>activeSessions := ss\<rparr>\<rparr>"

definition set_browsers :: "browser_h list \<Rightarrow> service \<Rightarrow> service" where
  "set_browsers bs s = s\<lparr>browserPool := (browserPool s)\<lparr>browsers := bs\<rparr>\<rparr>"

definition called :: "engine_call list \<Rightarrow> service \<Rightarrow> service" where
  "called cs s = s\<lparr>engineCalls := engineCalls s @ cs\<rparr>"

definition broadcast :: "string \<Rightarrow> payload \<Rightarrow> service \<Rightarrow> service" where
  "broadcast topic p s = s\<lparr>wsBroadcasts := wsBroadcasts s @ [(topic, p)]\<rparr>"

text \<open>\<^verbatim>\<open>_launchBrowser()\<close> and the \<^verbatim>\<open>'disconnected'\<close> handler it registers.\<close>

definition launchBrowser :: "engine \<Rightarrow> service \<Rightarrow> (error + browser_h) \<times> service" where
  "launchBrowser eng s =
     (case launch eng of
        Inl err \<Rightarrow> (Inl (EngineError err), called [Launch] s)
      | Inr b \<Rightarrow>
          (Inr b, set_browsers (browsers (browserPool s) @ [b]) (called [Launch] s)))"

definition onDisconnected :: "browser_h \<Rightarrow> service \<Rightarrow> service" where
  "onDisconnected b s = set_browsers (remove1 b (browsers (browserPool s))) s"

text \<open>
  \<^verbatim>\<open>start()\<close>: the loop launches \<^verbatim>\<open>maxBrowsers\<close> engines and stops at the first
  launch that throws; the \<open>i\<close>-th launch is answered by \<open>engs i\<close>.
\<close>

fun launchLoop :: "(nat \<Rightarrow> engine) \<Rightarrow> nat \<Rightarrow> nat \<Rightarrow> service \<Rightarrow> (error + unit) \<times> service" where
  "launchLoop engs i 0 s = (Inr (), s)"
| "launchLoop engs i (Suc n) s =
     (case launchBrowser (engs i) s of
        (Inl err, s1) \<Rightarrow> (Inl err, s1)
      | (Inr _, s1) \<Rightarrow> launchLoop engs (Suc i) n s1)"

definition start :: "Config \<Rightarrow> (nat \<Rightarrow> engine) \<Rightarrow> service \<Rightarrow> (error + unit) \<times> service" where
  "start cfg engs s =
     (if BROWSER_TYPE cfg \<notin> set [''chromium'', ''firefox'', ''webkit'']
      then (Inl (UnsupportedBrowserType (BROWSER_TYPE cfg)), s)
      else launchLoop engs 0 (nat (maxBrowsers (browserPool s))) s)"

text \<open>
  \<^verbatim>\<open>createSession(userId, metadata)\<close>: \<open>now\<close> and \<open>sid\<close> are the clock and the
  \<^verbatim>\<open>uuidv4()\<close> read when the session object is built. \<^verbatim>\<open>this.browsers[0]\<close> of an empty
  array is \<^verbatim>\<open>undefined\<close>, and the call on it throws a \<^verbatim>\<open>TypeError\<close>.
\<close>

definition session_metadata ::
  "string option \<Rightarrow> (string \<times> string) list \<Rightarrow> (string \<times> string) list" where
  "session_metadata userId md =
     (let m = foldl (\<lambda>m (k, v). AList.update k v m) [] md
      in if truthy userId then AList.update ''user_id'' (the userId) m else m)"

definition createSession ::
  "engine \<Rightarrow> int \<Rightarrow> string \<Rightarrow> string option \<Rightarrow> (string \<times> string) list \<Rightarrow> service
     \<Rightarrow> (error + string) \<times> service" where
  "createSession eng now sid userId md s =
     (if int (length (sessions s)) \<ge> maxBrowsers (browserPool s) then (Inl PoolAtCapacity, s)
      else
        case (if browsers (browserPool s) = [] then launchBrowser eng s else (Inr 0, s)) of
          (Inl err, s1) \<Rightarrow> (Inl err, s1)
        | (Inr _, s1) \<Rightarrow>
            (case browsers (browserPool s1) of
               [] \<Rightarrow> (Inl (TypeError ''Cannot read properties of undefined''), s1)
             | b # _ \<Rightarrow>
                 (case newContext eng b of
                    Inl err \<Rightarrow> (Inl (EngineError err), called [NewContext b] s1)
                  | Inr c \<Rightarrow>
                      (let session = (BrowserSession_new sid c now)
                                        \<lparr>metadata := session_metadata userId md\<rparr>
                       in (Inr sid,
                           set_sessions (AList.update sid session (sessions s1))
                             (called [NewContext b] s1))))))"

text \<open>
  The segments of \<^verbatim>\<open>createSession\<close> between its \<^verbatim>\<open>await\<close>s. A call that has
  yielded waits for the launch (\<open>AwaitLaunch\<close>) or for the context of the engine it
  picked (\<open>AwaitNewContext\<close>); the engine call is issued before the yield and its
  outcome is read when the call is resumed.
  \<^item> \<open>createSession_begin\<close>: the capacity test, then either the launch call on an
    empty list or the pick of \<^verbatim>\<open>this.browsers[0]\<close>.
  \<^item> \<open>createSession_launched\<close>: the launch has settled; a launched browser is pushed,
    and the first engine is picked.
  \<^item> \<open>createSession_register\<close>: \<^verbatim>\<open>newContext\<close> has settled; the session is built
    and stored.
\<close>

datatype createSession_pending = AwaitLaunch | AwaitNewContext browser_h

definition createSession_pick :: "service \<Rightarrow> (error + browser_h) \<times> service" where
  "createSession_pick s =
     (case browsers (browserPool s) of
        [] \<Rightarrow> (Inl (TypeError ''Cannot read properties of undefined''), s)
      | b # _ \<Rightarrow> (Inr b, called [NewContext b] s))"

definition createSession_begin :: "service \<Rightarrow> (error + createSession_pending) \<times> service" where
  "createSession_begin s =
     (if int (length (sessions s)) \<ge> maxBrowsers (browserPool s) then (Inl PoolAtCapacity, s)
      else if browsers (browserPool s) = [] then (Inr AwaitLaunch, called [Launch] s)
      else
        case createSession_pick s of
          (Inl err, s1) \<Rightarrow> (Inl err, s1)
        | (Inr b, s1) \<Rightarrow> (Inr (AwaitNewContext b), s1))"

definition createSession_launched :: "engine \<Rightarrow> service \<Rightarrow> (error + browser_h) \<times> service" where
  "createSession_launched eng s =
     (case launch eng of
        Inl err \<Rightarrow> (Inl (EngineError err), s)
      | Inr b \<Rightarrow> createSession_pick (set_browsers (browsers (browserPool s) @ [b]) s))"

definition createSession_register ::
  "engine \<Rightarrow> int \<Rightarrow> string \<Rightarrow> string option \<Rightarrow> (string \<times> string) list \<Rightarrow> browser_h
     \<Rightarrow> service \<Rightarrow> (error + string) \<times> service" where
  "createSession_register eng now sid userId md b s =
     (case newContext eng b of
        Inl err \<Rightarrow> (Inl (EngineError err), s)
      | Inr c \<Rightarrow>
          (let session = (BrowserSession_new sid c now)
                            \<lparr>metadata := session_metadata userId md\<rparr>
           in (Inr sid, set_sessions (AList.update sid session (sessions s)) s)))"

definition getSession :: "int \<Rightarrow> string \<Rightarrow> service \<Rightarrow> BrowserSession option \<times> service" where
  "getSession now sid s =
     (case map_of (sessions s) sid of
        Some session \<Rightarrow>
          (let session1 = session\<lparr>lastActivity := now\<rparr>
           in (Some session1, set_sessions (AList.update sid session1 (sessions s)) s))
      | None \<Rightarrow> (None, s))"

definition closeSession :: "engine \<Rightarrow> string \<Rightarrow> service \<Rightarrow> (error + bool) \<times> service" where
  "closeSession eng sid s =
     (case map_of (sessions s) sid of
        Some session \<Rightarrow>
          (case session_close eng session of
             (Inl err, session1, cs) \<Rightarrow>
               (Inl err, called cs (set_sessions (AList.update sid session1 (sessions s)) s))
           | (Inr _, session1, cs) \<Rightarrow>
               (Inr True, called cs (set_sessions (AList.delete sid (sessions s)) s)))
      | None \<Rightarrow> (Inr False, s))"

text \<open>
  \<^verbatim>\<open>createPage(sessionId, url)\<close>: \<open>t1\<close> is the clock read by \<^verbatim>\<open>getSession\<close>, \<open>t2\<close> the
  clock and \<open>pid\<close> the uuid read by \<^verbatim>\<open>addPage\<close> after \<^verbatim>\<open>newPage()\<close> has resolved.
\<close>

definition createPage ::
  "Config \<Rightarrow> engine \<Rightarrow> int \<Rightarrow> int \<Rightarrow> string \<Rightarrow> string \<Rightarrow> string option \<Rightarrow> service
     \<Rightarrow> (error + string) \<times> service" where
  "createPage cfg eng t1 t2 pid sid url s =
     (case getSession t1 sid s of
        (None, s1) \<Rightarrow> (Inl (SessionNotFound sid), s1)
      | (Some session, s1) \<Rightarrow>
          (case newPage eng (browserContext session) of
             Inl err \<Rightarrow> (Inl (EngineError err), called [NewPage (browserContext session)] s1)
           | Inr pg \<Rightarrow>
               (let (pageId, session1) = addPage pid t2 pg session;
                    s2 = set_sessions (AList.update sid session1 (sessions s1))
                           (called [NewPage (browserContext session)] s1)
                in if truthy url
                   then (let timeout = Some (MAX_PAGE_LOAD_TIME cfg * 1000)
                         in case page_goto eng pg url timeout of
                              Inl err \<Rightarrow> (Inl (EngineError err), called [Goto pg url timeout] s2)
                            | Inr _ \<Rightarrow> (Inr pageId, called [Goto pg url timeout] s2))
                   else (Inr pageId, s2))))"

definition getPage :: "int \<Rightarrow> string \<Rightarrow> string \<Rightarrow> service \<Rightarrow> page_h option \<times> service" where
  "getPage now sid pid s =
     (case getSession now sid s of
        (Some session, s1) \<Rightarrow> (session_getPage pid session, s1)
      | (None, s1) \<Rightarrow> (None, s1))"

definition closePage ::
  "engine \<Rightarrow> int \<Rightarrow> int \<Rightarrow> string \<Rightarrow> string \<Rightarrow> service \<Rightarrow> (error + bool) \<times> service" where
  "closePage eng t1 t2 sid pid s =
     (case getSession t1 sid s of
        (Some session, s1) \<Rightarrow>
          (case session_getPage pid session of
             Some pg \<Rightarrow>
               (case page_close eng pg of
                  None \<Rightarrow>
                    (let (removed, session1) = removePage pid t2 session
                     in (Inr True,
                         set_sessions (AList.update sid session1 (sessions s1))
                           (called [PageClose pg] s1)))
                | Some err \<Rightarrow> (Inr False, called [PageClose pg] s1))
           | None \<Rightarrow> (Inr False, s1))
      | (None, s1) \<Rightarrow> (Inr False, s1))"

text \<open>
  \<^verbatim>\<open>_cleanupExpiredSessions()\<close>. The scan is a synchronous loop, taken to read one
  clock value \<open>now\<close>. The second loop calls \<^verbatim>\<open>this.closeSession\<close>, which is looked up
  on the object when the sweep runs: \<open>close\<close> is the method installed at that moment.
\<close>

definition expiredSessions :: "int \<Rightarrow> service \<Rightarrow> string list" where
  "expiredSessions now s =
     map fst (filter (\<lambda>(sid, session). isExpired now (browserTimeout (browserPool s)) session)
                     (sessions s))"

fun closeEach ::
  "(string \<Rightarrow> service \<Rightarrow> (error + bool) \<times> service) \<Rightarrow> string list \<Rightarrow> service
     \<Rightarrow> (error + unit) \<times> service" where
  "closeEach close [] s = (Inr (), s)"
| "closeEach close (sid # sids) s =
     (case close sid s of
        (Inl err, s1) \<Rightarrow> (Inl err, s1)
      | (Inr _, s1) \<Rightarrow> closeEach close sids s1)"

definition cleanupExpiredSessions ::
  "(string \<Rightarrow> service \<Rightarrow> (error + bool) \<times> service) \<Rightarrow> int \<Rightarrow> service
     \<Rightarrow> (error + unit) \<times> service" where
  "cleanupExpiredSessions close now s = closeEach close (expiredSessions now s) s"

subsection \<open>BrowserPoolService.setupEventBroadcasting: the intercepted methods\<close>

definition createSession_w ::
  "engine \<Rightarrow> int \<Rightarrow> string \<Rightarrow> string option \<Rightarrow> (string \<times> string) list \<Rightarrow> service
     \<Rightarrow> (error + string) \<times> service" where
  "createSession_w eng now sid userId md s =
     (case createSession eng now sid userId md s of
        (Inl err, s1) \<Rightarrow> (Inl err, s1)
      | (Inr newId, s1) \<Rightarrow>
          (Inr newId, broadcast ''session.created'' (SessionCreatedP newId md) s1))"

definition closeSession_w :: "engine \<Rightarrow> string \<Rightarrow> service \<Rightarrow> (error + bool) \<times> service" where
  "closeSession_w eng sid s =
     (case closeSession eng sid s of
        (Inl err, s1) \<Rightarrow> (Inl err, s1)
      | (Inr result, s1) \<Rightarrow>
          (Inr result,
           if result then broadcast ''session.closed'' (SessionClosedP sid) s1 else s1))"

definition createPage_w ::
  "Config \<Rightarrow> engine \<Rightarrow> int \<Rightarrow> int \<Rightarrow> string \<Rightarrow> string \<Rightarrow> string option \<Rightarrow> service
     \<Rightarrow> (error + string) \<times> service" where
  "createPage_w cfg eng t1 t2 pid sid url s =
     (case createPage cfg eng t1 t2 pid sid url s of
        (Inl err, s1) \<Rightarrow> (Inl err, s1)
      | (Inr pageId, s1) \<Rightarrow>
          (Inr pageId, broadcast ''page.created'' (PageCreatedP sid pageId url) s1))"

definition closePage_w ::
  "engine \<Rightarrow> int \<Rightarrow> int \<Rightarrow> string \<Rightarrow> string \<Rightarrow> service \<Rightarrow> (error + bool) \<times> service" where
  "closePage_w eng t1 t2 sid pid s =
     (case closePage eng t1 t2 sid pid s of
        (Inl err, s1) \<Rightarrow> (Inl err, s1)
      | (Inr result, s1) \<Rightarrow>
          (Inr result,
           if result then broadcast ''page.closed'' (PageClosedP sid pid) s1 else s1))"

subsection \<open>Synchronous control plane: BrowserPoolGrpcServer\<close>

datatype grpc_status = RESOURCE_EXHAUSTED | INTERNAL | NOT_FOUND

datatype grpc_reply =
    GrpcError grpc_status string
  | AcquireReply string
  | CreatePageReply string string
  | NavigateReply bool string string string
  | ActionReply bool string

text \<open>\<^verbatim>\<open>x || null\<close> on a string and \<^verbatim>\<open>timeout_ms || d\<close> on a number.\<close>

definition or_null :: "string option \<Rightarrow> string option" where
  "or_null x = (if truthy x then x else None)"

definition or_default :: "int \<Rightarrow> int \<Rightarrow> int" where
  "or_default timeout_ms d = (if timeout_ms \<noteq> 0 then timeout_ms else d)"

definition acquire ::
  "engine \<Rightarrow> int \<Rightarrow> string \<Rightarrow> string option \<Rightarrow> (string \<times> string) list \<Rightarrow> service
     \<Rightarrow> grpc_reply \<times> service" where
  "acquire eng now sid user_id md s =
     (case createSession_w eng now sid (or_null user_id) md s of
        (Inr newId, s1) \<Rightarrow> (AcquireReply newId, s1)
      | (Inl err, s1) \<Rightarrow> (GrpcError RESOURCE_EXHAUSTED (message err), s1))"

definition grpc_createPage ::
  "Config \<Rightarrow> engine \<Rightarrow> int \<Rightarrow> int \<Rightarrow> string \<Rightarrow> string \<Rightarrow> string option \<Rightarrow> service
     \<Rightarrow> grpc_reply \<times> service" where
  "grpc_createPage cfg eng t1 t2 pid session_id url s =
     (case createPage_w cfg eng t1 t2 pid session_id url s of
        (Inr pageId, s1) \<Rightarrow> (CreatePageReply session_id pageId, s1)
      | (Inl err, s1) \<Rightarrow> (GrpcError INTERNAL (message err), s1))"

definition navigatePage ::
  "Config \<Rightarrow> engine \<Rightarrow> int \<Rightarrow> string \<Rightarrow> string \<Rightarrow> string option \<Rightarrow> int \<Rightarrow> service
     \<Rightarrow> grpc_reply \<times> service" where
  "navigatePage cfg eng now session_id page_id url timeout_ms s =
     (case getPage now session_id page_id s of
        (None, s1) \<Rightarrow> (GrpcError NOT_FOUND ''Page not found'', s1)
      | (Some pg, s1) \<Rightarrow>
          (let timeout = Some (or_default timeout_ms (MAX_PAGE_LOAD_TIME cfg * 1000))
           in case page_goto eng pg url timeout of
                Inl err \<Rightarrow> (NavigateReply False [] [] err, called [Goto pg url timeout] s1)
              | Inr response \<Rightarrow>
                  (case page_title eng pg of
                     Inl err \<Rightarrow>
                       (NavigateReply False [] [] err, called [Goto pg url timeout, Title pg] s1)
                   | Inr title \<Rightarrow>
                       (case response of
                          None \<Rightarrow>
                            (NavigateReply False [] []
                               (message (TypeError ''Cannot read properties of null'')),
                             called [Goto pg url timeout, Title pg] s1)
                        | Some final_url \<Rightarrow>
                            (NavigateReply True final_url title [],
                             called [Goto pg url timeout, Title pg] s1)))))"

definition grpc_click ::
  "engine \<Rightarrow> int \<Rightarrow> string \<Rightarrow> string \<Rightarrow> string option \<Rightarrow> int \<Rightarrow> service
     \<Rightarrow> grpc_reply \<times> service" where
  "grpc_click eng now session_id page_id selector timeout_ms s =
     (case getPage now session_id page_id s of
        (None, s1) \<Rightarrow> (GrpcError NOT_FOUND ''Page not found'', s1)
      | (Some pg, s1) \<Rightarrow>
          (let timeout = Some (or_default timeout_ms 30000)
           in case page_click eng pg selector timeout of
                None \<Rightarrow> (ActionReply True ''Click executed'', called [Click pg selector timeout] s1)
              | Some err \<Rightarrow> (ActionReply False err, called [Click pg selector timeout] s1)))"

definition grpc_type ::
  "engine \<Rightarrow> int \<Rightarrow> string \<Rightarrow> string \<Rightarrow> string option \<Rightarrow> string option \<Rightarrow> int \<Rightarrow> service
     \<Rightarrow> grpc_reply \<times> service" where
  "grpc_type eng now session_id page_id selector text timeout_ms s =
     (case getPage now session_id page_id s of
        (None, s1) \<Rightarrow> (GrpcError NOT_FOUND ''Page not found'', s1)
      | (Some pg, s1) \<Rightarrow>
          (let timeout = Some (or_default timeout_ms 30000)
           in case page_fill eng pg selector text timeout of
                None \<Rightarrow> (ActionReply True ''Text typed'', called [Fill pg selector text timeout] s1)
              | Some err \<Rightarrow> (ActionReply False err, called [Fill pg selector text timeout] s1)))"

subsection \<open>Event control plane: BrowserPoolWebSocketServer.handleBrowserAction\<close>

record ws_payload =
  p_action :: string
  p_sessionId :: "string option"
  p_pageId :: "string option"
  p_userId :: "string option"
  p_metadata :: "(string \<times> string) list"
  p_url :: "string option"
  p_selector :: "string option"
  p_text :: "string option"

datatype action_result = ResultId string | ResultSuccess

datatype ws_reply =
    BrowserActionOk string "string option" "string option" action_result
  | BrowserActionFailed string string

text \<open>
  The pool is called with the identifiers of the message as they are. The keys of the
  tables are strings, so a lookup of \<^verbatim>\<open>undefined\<close> misses: \<open>ws_createPage\<close> and
  \<open>ws_getPage\<close> are \<^verbatim>\<open>browserPool.createPage\<close> and \<^verbatim>\<open>browserPool.getPage\<close> at
  identifiers that may be \<^verbatim>\<open>undefined\<close>.
\<close>

definition ws_createPage ::
  "Config \<Rightarrow> engine \<Rightarrow> int \<Rightarrow> int \<Rightarrow> string \<Rightarrow> string option \<Rightarrow> string option \<Rightarrow> service
     \<Rightarrow> (error + string) \<times> service" where
  "ws_createPage cfg eng t1 t2 pid sidO url s =
     (case sidO of
        Some sid \<Rightarrow> createPage_w cfg eng t1 t2 pid sid url s
      | None \<Rightarrow> (Inl (SessionNotFound ''undefined''), s))"

definition ws_getPage ::
  "int \<Rightarrow> string option \<Rightarrow> string option \<Rightarrow> service \<Rightarrow> page_h option \<times> service" where
  "ws_getPage now sidO pidO s =
     (case sidO of
        None \<Rightarrow> (None, s)
      | Some sid \<Rightarrow>
          (case pidO of
             None \<Rightarrow> (None, snd (getSession now sid s))
           | Some pid \<Rightarrow> getPage now sid pid s))"

text \<open>The \<^verbatim>\<open>switch\<close> of \<^verbatim>\<open>handleBrowserAction\<close>: the result or the error thrown.\<close>

definition browserAction ::
  "Config \<Rightarrow> engine \<Rightarrow> int \<Rightarrow> int \<Rightarrow> string \<Rightarrow> ws_payload \<Rightarrow> service
     \<Rightarrow> (error + action_result) \<times> service" where
  "browserAction cfg eng t1 t2 uuid pl s =
     (if p_action pl = ''create-session'' then
        (case createSession_w eng t1 uuid (p_userId pl) (p_metadata pl) s of
           (Inl err, s1) \<Rightarrow> (Inl err, s1)
         | (Inr newId, s1) \<Rightarrow> (Inr (ResultId newId), s1))
      else if p_action pl = ''create-page'' then
        (case ws_createPage cfg eng t1 t2 uuid (p_sessionId pl) (p_url pl) s of
           (Inl err, s1) \<Rightarrow> (Inl err, s1)
         | (Inr pageId, s1) \<Rightarrow> (Inr (ResultId pageId), s1))
      else if p_action pl = ''navigate'' then
        (case ws_getPage t1 (p_sessionId pl) (p_pageId pl) s of
           (Some pg, s1) \<Rightarrow>
             (case page_goto eng pg (p_url pl) None of
                Inl err \<Rightarrow> (Inl (EngineError err), called [Goto pg (p_url pl) None] s1)
              | Inr _ \<Rightarrow> (Inr ResultSuccess, called [Goto pg (p_url pl) None] s1))
         | (None, s1) \<Rightarrow> (Inl PageNotFound, s1))
      else if p_action pl = ''click'' then
        (case ws_getPage t1 (p_sessionId pl) (p_pageId pl) s of
           (Some pg, s1) \<Rightarrow>
             (case page_click eng pg (p_selector pl) None of
                Some err \<Rightarrow> (Inl (EngineError err), called [Click pg (p_selector pl) None] s1)
              | None \<Rightarrow> (Inr ResultSuccess, called [Click pg (p_selector pl) None] s1))
         | (None, s1) \<Rightarrow> (Inl PageNotFound, s1))
      else if p_action pl = ''type'' then
        (case ws_getPage t1 (p_sessionId pl) (p_pageId pl) s of
           (Some pg, s1) \<Rightarrow>
             (case page_fill eng pg (p_selector pl) (p_text pl) None of
                Some err \<Rightarrow>
                  (Inl (EngineError err),
                   called [Fill pg (p_selector pl) (p_text pl) None] s1)
              | None \<Rightarrow>
                  (Inr ResultSuccess, called [Fill pg (p_selector pl) (p_text pl) None] s1))
         | (None, s1) \<Rightarrow> (Inl PageNotFound, s1))
      else (Inl (UnknownAction (p_action pl)), s))"

text \<open>
  \<^verbatim>\<open>handleBrowserAction(clientId, payload)\<close>: the reply sent to the client, and on
  success the broadcast on topic \<^verbatim>\<open>browser.<action>\<close>; \<open>t3\<close> is the clock read for
  its timestamp.
\<close>

definition handleBrowserAction ::
  "Config \<Rightarrow> engine \<Rightarrow> int \<Rightarrow> int \<Rightarrow> int \<Rightarrow> string \<Rightarrow> string \<Rightarrow> ws_payload \<Rightarrow> service
     \<Rightarrow> ws_reply \<times> service" where
  "handleBrowserAction cfg eng t1 t2 t3 uuid clientId pl s =
     (case browserAction cfg eng t1 t2 uuid pl s of
        (Inr result, s1) \<Rightarrow>
          (BrowserActionOk (p_action pl) (p_sessionId pl) (p_pageId pl) result,
           broadcast (''browser.'' @ p_action pl)
             (BrowserActionP clientId (p_sessionId pl) (p_pageId pl) (p_action pl) t3) s1)
      | (Inl err, s1) \<Rightarrow> (BrowserActionFailed (p_action pl) (message err), s1))"

subsection \<open>One action on the two planes\<close>

text \<open>
  An action verb with its arguments; \<open>ws_message\<close> is the \<^verbatim>\<open>browser-action\<close> payload
  that carries it on the event plane, \<open>grpc_call\<close> the request that carries the same
  arguments on the synchronous plane (\<^verbatim>\<open>timeout_ms\<close> not given, so 0).
\<close>

datatype action =
    ACreateSession "string option" "(string \<times> string) list"
  | ACreatePage string "string option"
  | ANavigate string string "string option"
  | AClick string string "string option"
  | AType string string "string option" "string option"

fun verb :: "action \<Rightarrow> string" where
  "verb (ACreateSession userId md) = ''create-session''"
| "verb (ACreatePage sid url) = ''create-page''"
| "verb (ANavigate sid pid url) = ''navigate''"
| "verb (AClick sid pid selector) = ''click''"
| "verb (AType sid pid selector txt) = ''type''"

fun ws_message :: "action \<Rightarrow> ws_payload" where
  "ws_message (ACreateSession userId md) =
     \<lparr>p_action = ''create-session'', p_sessionId = None, p_pageId = None, p_userId = userId,
      p_metadata = md, p_url = None, p_selector = None, p_text = None\<rparr>"
| "ws_message (ACreatePage sid url) =
     \<lparr>p_action = ''create-page'', p_sessionId = Some sid, p_pageId = None, p_userId = None,
      p_metadata = [], p_url = url, p_selector = None, p_text = None\<rparr>"
| "ws_message (ANavigate sid pid url) =
     \<lparr>p_action = ''navigate'', p_sessionId = Some sid, p_pageId = Some pid, p_userId = None,
      p_metadata = [], p_url = url, p_selector = None, p_text = None\<rparr>"
| "ws_message (AClick sid pid selector) =
     \<lparr>p_action = ''click'', p_sessionId = Some sid, p_pageId = Some pid, p_userId = None,
      p_metadata = [], p_url = None, p_selector = selector, p_text = None\<rparr>"
| "ws_message (AType sid pid selector txt) =
     \<lparr>p_action = ''type'', p_sessionId = Some sid, p_pageId = Some pid, p_userId = None,
      p_metadata = [], p_url = None, p_selector = selector, p_text = txt\<rparr>"

fun grpc_call ::
  "Config \<Rightarrow> engine \<Rightarrow> int \<Rightarrow> int \<Rightarrow> string \<Rightarrow> action \<Rightarrow> service \<Rightarrow> grpc_reply \<times> service" where
  "grpc_call cfg eng t1 t2 uuid (ACreateSession userId md) s = acquire eng t1 uuid userId md s"
| "grpc_call cfg eng t1 t2 uuid (ACreatePage sid url) s =
     grpc_createPage cfg eng t1 t2 uuid sid url s"
| "grpc_call cfg eng t1 t2 uuid (ANavigate sid pid url) s = navigatePage cfg eng t1 sid pid url 0 s"
| "grpc_call cfg eng t1 t2 uuid (AClick sid pid selector) s = grpc_click eng t1 sid pid selector 0 s"
| "grpc_call cfg eng t1 t2 uuid (AType sid pid selector txt) s =
     grpc_type eng t1 sid pid selector txt 0 s"

fun ws_ok :: "ws_reply \<Rightarrow> bool" where
  "ws_ok (BrowserActionOk a sid pid r) = True"
| "ws_ok (BrowserActionFailed a m) = False"

subsection \<open>Operation sequences\<close>

text \<open>
  One operation of the running service, with the engine outcomes, clock values and uuids
  it reads. The methods are the ones installed by \<^verbatim>\<open>setupEventBroadcasting\<close>; the
  reaper therefore closes through \<open>closeSession_w\<close>.
\<close>

datatype op =
    CreateSession engine int string "string option" "(string \<times> string) list"
  | GetSession int string
  | CloseSession engine string
  | CreatePage engine int int string string "string option"
  | GetPage int string string
  | ClosePage engine int int string string
  | Sweep engine int
  | Disconnected browser_h

fun step :: "Config \<Rightarrow> op \<Rightarrow> service \<Rightarrow> service" where
  "step cfg (CreateSession eng now sid userId md) s = snd (createSession_w eng now sid userId md s)"
| "step cfg (GetSession now sid) s = snd (getSession now sid s)"
| "step cfg (CloseSession eng sid) s = snd (closeSession_w eng sid s)"
| "step cfg (CreatePage eng t1 t2 pid sid url) s = snd (createPage_w cfg eng t1 t2 pid sid url s)"
| "step cfg (GetPage now sid pid) s = snd (getPage now sid pid s)"
| "step cfg (ClosePage eng t1 t2 sid pid) s = snd (closePage_w eng t1 t2 sid pid s)"
| "step cfg (Sweep eng now) s = snd (cleanupExpiredSessions (closeSession_w eng) now s)"
| "step cfg (Disconnected b) s = onDisconnected b s"

fun run :: "Config \<Rightarrow> op list \<Rightarrow> service \<Rightarrow> service" where
  "run cfg [] s = s"
| "run cfg (x # xs) s = run cfg xs (step cfg x s)"

text \<open>The clock values an operation reads, in the order it reads them.\<close>

fun times_of :: "op \<Rightarrow> int list" where
  "times_of (CreateSession eng now sid userId md) = [now]"
| "times_of (GetSession now sid) = [now]"
| "times_of (CloseSession eng sid) = []"
| "times_of (CreatePage eng t1 t2 pid sid url) = [t1, t2]"
| "times_of (GetPage now sid pid) = [now]"
| "times_of (ClosePage eng t1 t2 sid pid) = [t1, t2]"
| "times_of (Sweep eng now) = [now]"
| "times_of (Disconnected b) = []"

subsection \<open>The state in which createPage has registered its page\<close>

definition registered ::
  "string \<Rightarrow> int \<Rightarrow> string \<Rightarrow> page_h \<Rightarrow> BrowserSession \<Rightarrow> service \<Rightarrow> service" where
  "registered sid t2 pid pg x s =
     called [NewPage (browserContext x)]
       (set_sessions
          (AList.update sid (x\<lparr>pages := AList.update pid pg (pages x), lastActivity := t2\<rparr>)
             (sessions s)) s)"

subsection \<open>Concrete configurations, engines and states\<close>

definition ex_cfg :: Config where
  "ex_cfg = \<lparr>MAX_BROWSERS = 2, BROWSER_TIMEOUT = 30, MAX_PAGE_LOAD_TIME = 30,
             VIEWPORT_WIDTH = 1280, VIEWPORT_HEIGHT = 720, BROWSER_TYPE = ''chromium''\<rparr>"

text \<open>An engine that answers every call: it launches browser \<open>b\<close>, opens context \<open>c\<close>
  and page \<open>pg\<close>.\<close>

definition engine_ok :: "browser_h \<Rightarrow> context_h \<Rightarrow> page_h \<Rightarrow> engine" where
  "engine_ok b c pg =
     \<lparr>launch = Inr b, newContext = (\<lambda>_. Inr c), newPage = (\<lambda>_. Inr pg),
      page_goto = (\<lambda>_ u _. Inr u), page_title = (\<lambda>_. Inr ''Example''),
      page_click = (\<lambda>_ _ _. None), page_fill = (\<lambda>_ _ _ _. None),
      page_close = (\<lambda>_. None), context_close = (\<lambda>_. None)\<rparr>"

text \<open>An engine whose every call is rejected.\<close>

definition engine_down :: engine where
  "engine_down =
     \<lparr>launch = Inl ''Failed to launch'', newContext = (\<lambda>_. Inl ''Target closed''),
      newPage = (\<lambda>_. Inl ''Target closed''),
      page_goto = (\<lambda>_ _ _. Inl ''Timeout 30000ms exceeded''),
      page_title = (\<lambda>_. Inl ''Target closed''),
      page_click = (\<lambda>_ _ _. Some ''Target closed''),
      page_fill = (\<lambda>_ _ _ _. Some ''Target closed''),
      page_close = (\<lambda>_. Some ''Target closed''),
      context_close = (\<lambda>_. Some ''Target closed'')\<rparr>"

text \<open>An engine that opens page \<open>pg\<close> in context \<open>c\<close> but fails every navigation.\<close>

definition engine_nav_fails :: "context_h \<Rightarrow> page_h \<Rightarrow> engine" where
  "engine_nav_fails c pg =
     (engine_ok 1 c pg)\<lparr>page_goto := (\<lambda>_ _ _. Inl ''Timeout 30000ms exceeded'')\<rparr>"

text \<open>The fresh service, and the service after \<^verbatim>\<open>start()\<close> has launched browsers 1 and 2.\<close>

definition ex_fresh :: service where
  "ex_fresh = service_new ex_cfg"

definition ex_started :: service where
  "ex_started = snd (start ex_cfg (\<lambda>i. engine_ok (Suc i) 0 0) ex_fresh)"

text \<open>Session \<open>A\<close> (context 10) with one page \<open>P\<close> (handle 100), created at times 1000
  to 2001.\<close>

definition ex_ops_A :: "op list" where
  "ex_ops_A =
     [CreateSession (engine_ok 1 10 0) 1000 ''A'' None [],
      CreatePage (engine_ok 1 10 100) 2000 2001 ''P'' ''A'' None]"

definition ex_session_A :: BrowserSession where
  "ex_session_A =
     \<lparr>sessionId = ''A'', browserContext = 10, createdAt = 1000, lastActivity = 2001,
      pages = [(''P'', 100)], metadata = []\<rparr>"

definition ex_A :: service where
  "ex_A = run ex_cfg ex_ops_A ex_started"

text \<open>Two sessions: \<open>A\<close> as above and \<open>B\<close> (context 11), created at time 40000.\<close>

definition ex_AB :: service where
  "ex_AB = step ex_cfg (CreateSession (engine_ok 1 11 0) 40000 ''B'' (Some ''bob'') []) ex_A"

text \<open>An engine that launches browser \<open>b\<close> and then rejects every \<^verbatim>\<open>newContext\<close>.\<close>

definition engine_no_context :: "browser_h \<Rightarrow> engine" where
  "engine_no_context b = (engine_ok b 0 0)\<lparr>newContext := (\<lambda>_. Inl ''Target closed'')\<rparr>"

text \<open>
  Three \<^verbatim>\<open>createSession\<close> calls that overlap on the started service: each runs its
  first segment before any \<^verbatim>\<open>newContext\<close> has settled, then the three are resumed.
\<close>

definition ex_three_begun :: service where
  "ex_three_begun =
     snd (createSession_begin (snd (createSession_begin (snd (createSession_begin ex_started)))))"

definition ex_three_registered :: service where
  "ex_three_registered =
     snd (createSession_register (engine_ok 1 12 0) 1003 ''C'' None [] 1
       (snd (createSession_register (engine_ok 1 11 0) 1002 ''B'' None [] 1
         (snd (createSession_register (engine_ok 1 10 0) 1001 ''A'' None [] 1 ex_three_begun)))))"

text \<open>The capacity scenario: create \<open>A\<close> and \<open>B\<close>, try \<open>C\<close>, close \<open>A\<close>, create
  \<open>C\<close>.\<close>

definition ex_ops_capacity :: "op list" where
  "ex_ops_capacity =
     [CreateSession (engine_ok 1 10 0) 1000 ''A'' None [],
      CreateSession (engine_ok 1 11 0) 2000 ''B'' None [],
      CreateSession (engine_ok 1 12 0) 3000 ''C'' None [],
      CloseSession (engine_ok 1 0 0) ''A'',
      CreateSession (engine_ok 1 12 0) 4000 ''C'' None []]"

section \<open>Basic facts about the state\<close>

lemma sessions_simps [simp]:
  "sessions (set_sessions ss s) = ss"
  "sessions (called cs s) = sessions s"
  "sessions (broadcast tp p s) = sessions s"
  "sessions (set_browsers bs s) = sessions s"
  by (simp_all add: sessions_def set_sessions_def called_def broadcast_def set_browsers_def)

lemma engineCalls_simps [simp]:
  "engineCalls (set_sessions ss s) = engineCalls s"
  "engineCalls (called cs s) = engineCalls s @ cs"
  "engineCalls (broadcast tp p s) = engineCalls s"
  "engineCalls (set_browsers bs s) = engineCalls s"
  by (simp_all add: set_sessions_def called_def broadcast_def set_browsers_def)

lemma wsBroadcasts_simps [simp]:
  "wsBroadcasts (set_sessions ss s) = wsBroadcasts s"
  "wsBroadcasts (called cs s) = wsBroadcasts s"
  "wsBroadcasts (broadcast tp p s) = wsBroadcasts s @ [(tp, p)]"
  "wsBroadcasts (set_browsers bs s) = wsBroadcasts s"
  by (simp_all add: set_sessions_def called_def broadcast_def set_browsers_def)

lemma pool_consts_simps [simp]:
  "maxBrowsers (browserPool (set_sessions ss s)) = maxBrowsers (browserPool s)"
  "maxBrowsers (browserPool (set_browsers bs s)) = maxBrowsers (browserPool s)"
  "browserTimeout (browserPool (set_sessions ss s)) = browserTimeout (browserPool s)"
  "browserTimeout (browserPool (set_browsers bs s)) = browserTimeout (browserPool s)"
  by (simp_all add: set_sessions_def set_browsers_def)

lemma browsers_simps [simp]:
  "browsers (browserPool (set_sessions ss s)) = browsers (browserPool s)"
  "browsers (browserPool (set_browsers bs s)) = bs"
  by (simp_all add: set_sessions_def set_browsers_def)

lemma browserPool_simps [simp]:
  "browserPool (called cs s) = browserPool s"
  "browserPool (broadcast tp p s) = browserPool s"
  by (simp_all add: called_def broadcast_def)

lemma set_sessions_twice [simp]: "set_sessions a (set_sessions b s) = set_sessions a s"
  by (simp add: set_sessions_def)

lemma set_sessions_called: "set_sessions a (called cs s) = called cs (set_sessions a s)"
  by (simp add: set_sessions_def called_def)

lemma map_of_delete_same: "map_of (AList.delete k al) k = None"
  by (simp add: delete_conv')

lemma sessions_registered [simp]:
  "sessions (registered sid t2 pid pg x s) =
     AList.update sid (x\<lparr>pages := AList.update pid pg (pages x), lastActivity := t2\<rparr>) (sessions s)"
  by (simp add: registered_def)

lemma engineCalls_registered [simp]:
  "engineCalls (registered sid t2 pid pg x s) = engineCalls s @ [NewPage (browserContext x)]"
  by (simp add: registered_def)

lemma wsBroadcasts_registered [simp]:
  "wsBroadcasts (registered sid t2 pid pg x s) = wsBroadcasts s"
  by (simp add: registered_def)

section \<open>The concrete states, evaluated\<close>

lemmas ex_engine_defs = engine_ok_def engine_down_def engine_nav_fails_def engine_no_context_def

lemmas pool_op_defs =
  launchBrowser_def called_def set_browsers_def set_sessions_def sessions_def broadcast_def
  createSession_w_def createSession_def createPage_w_def createPage_def getSession_def
  addPage_def BrowserSession_new_def session_metadata_def Let_def

lemma ex_fresh_eq:
  "ex_fresh =
     \<lparr>browserPool = \<lparr>maxBrowsers = 2, browserTimeout = 30, browsers = [], activeSessions = []\<rparr>,
      engineCalls = [], wsBroadcasts = []\<rparr>"
  by (simp add: ex_fresh_def ex_cfg_def service_new_def BrowserPool_new_def)

lemma ex_started_eq:
  "ex_started =
     \<lparr>browserPool = \<lparr>maxBrowsers = 2, browserTimeout = 30, browsers = [1, 2], activeSessions = []\<rparr>,
      engineCalls = [Launch, Launch], wsBroadcasts = []\<rparr>"
  by (simp add: ex_started_def ex_fresh_eq ex_cfg_def start_def ex_engine_defs pool_op_defs
        numeral_2_eq_2)

lemma ex_A_eq:
  "ex_A =
     \<lparr>browserPool =
        \<lparr>maxBrowsers = 2, browserTimeout = 30, browsers = [1, 2],
         activeSessions =
           [(''A'', ex_session_A)]\<rparr>,
      engineCalls = [Launch, Launch, NewContext 1, NewPage 10],
      wsBroadcasts =
        [(''session.created'', SessionCreatedP ''A'' []),
         (''page.created'', PageCreatedP ''A'' ''P'' None)]\<rparr>"
  by (simp add: ex_A_def ex_ops_A_def ex_started_eq ex_engine_defs pool_op_defs ex_session_A_def)

lemma ex_AB_eq:
  "ex_AB =
     \<lparr>browserPool =
        \<lparr>maxBrowsers = 2, browserTimeout = 30, browsers = [1, 2],
         activeSessions =
           [(''A'', ex_session_A),
            (''B'', \<lparr>sessionId = ''B'', browserContext = 11, createdAt = 40000,
                    lastActivity = 40000, pages = [], metadata = [(''user_id'', ''bob'')]\<rparr>)]\<rparr>,
      engineCalls = [Launch, Launch, NewContext 1, NewPage 10, NewContext 1],
      wsBroadcasts =
        [(''session.created'', SessionCreatedP ''A'' []),
         (''page.created'', PageCreatedP ''A'' ''P'' None),
         (''session.created'', SessionCreatedP ''B'' [])]\<rparr>"
  by (simp add: ex_AB_def ex_A_eq ex_engine_defs pool_op_defs)

lemma ex_A_present: "map_of (sessions ex_A) ''A'' = Some ex_session_A"
  by (simp add: ex_A_eq sessions_def)

lemma ex_AB_present: "map_of (sessions ex_AB) ''A'' = Some ex_session_A"
  by (simp add: ex_AB_eq sessions_def)

lemma ex_session_A_fields:
  "browserContext ex_session_A = 10" "pages ex_session_A = [(''P'', 100)]"
  "lastActivity ex_session_A = 2001"
  by (simp_all add: ex_session_A_def)

section \<open>Closing a session\<close>

lemma closePages_eq: "closePages eng ps = map (\<lambda>(pid, pg). PageClose pg) ps"
  by (induction ps) (auto split: option.splits)

lemma session_close_eq:
  "session_close eng x =
     (Inr (), x\<lparr>pages := []\<rparr>, closePages eng (pages x) @ [ContextClose (browserContext x)])"
  by (simp add: session_close_def session_close_body_def Let_def split: option.splits)

lemma closeSession_present:
  "map_of (sessions s) sid = Some x \<Longrightarrow>
   closeSession eng sid s =
     (Inr True,
      called (closePages eng (pages x) @ [ContextClose (browserContext x)])
        (set_sessions (AList.delete sid (sessions s)) s))"
  by (simp add: closeSession_def session_close_eq)

lemma closeSession_absent:
  "map_of (sessions s) sid = None \<Longrightarrow> closeSession eng sid s = (Inr False, s)"
  by (simp add: closeSession_def)

text \<open>
  Claim C7. For every session id: when the session is in the table, \<open>closeSession\<close>
  calls \<^verbatim>\<open>close\<close> on each child page (in table order) and then on the context, removes
  the session from the table and returns true, and a second call on the same id returns
  false and changes nothing; when the session is absent it returns false and the state
  is unchanged.
\<close>

theorem closeSession_closes_and_removes:
  "(map_of (sessions s) sid = Some x \<longrightarrow>
      fst (closeSession eng sid s) = Inr True \<and>
      engineCalls (snd (closeSession eng sid s)) =
        engineCalls s @ map (\<lambda>(pid, pg). PageClose pg) (pages x) @
          [ContextClose (browserContext x)] \<and>
      sessions (snd (closeSession eng sid s)) = AList.delete sid (sessions s) \<and>
      map_of (sessions (snd (closeSession eng sid s))) sid = None \<and>
      closeSession eng sid (snd (closeSession eng sid s)) =
        (Inr False, snd (closeSession eng sid s))) \<and>
   (map_of (sessions s) sid = None \<longrightarrow> closeSession eng sid s = (Inr False, s))"
  by (simp add: closeSession_present closeSession_absent closePages_eq map_of_delete_same)

theorem closeSession_closes_and_removes_witness:
  "map_of (sessions ex_AB) ''A'' = Some ex_session_A \<and>
   fst (closeSession (engine_ok 1 0 0) ''A'' ex_AB) = Inr True \<and>
   engineCalls (snd (closeSession (engine_ok 1 0 0) ''A'' ex_AB)) =
     engineCalls ex_AB @ [PageClose 100, ContextClose 10] \<and>
   map fst (sessions (snd (closeSession (engine_ok 1 0 0) ''A'' ex_AB))) = [''B''] \<and>
   fst (closeSession (engine_ok 1 0 0) ''A'' (snd (closeSession (engine_ok 1 0 0) ''A'' ex_AB)))
     = Inr False \<and>
   map_of (sessions ex_AB) ''C'' = None \<and>
   closeSession (engine_ok 1 0 0) ''C'' ex_AB = (Inr False, ex_AB)"
proof -
  have absent: "map_of (sessions ex_AB) ''C'' = None"
    by (simp add: ex_AB_eq sessions_def)
  have keys: "map fst (AList.delete ''A'' (sessions ex_AB)) = [''B'']"
    by (simp add: ex_AB_eq sessions_def)
  from closeSession_closes_and_removes [of ex_AB "''A''" ex_session_A "engine_ok 1 0 0"]
       closeSession_closes_and_removes [of ex_AB "''C''" ex_session_A "engine_ok 1 0 0"]
       ex_AB_present absent keys
  show ?thesis by (simp add: ex_session_A_fields)
qed

text \<open>
  Claim C9. \<open>closeSession\<close> on an existing session does not throw when closing a child
  page or the context fails: the error raised inside \<^verbatim>\<open>BrowserSession.close\<close> (here
  the one of \<^verbatim>\<open>context.close()\<close>, which reaches the outer \<^verbatim>\<open>catch\<close>) is dropped, the
  session is removed from the table and true is returned.
\<close>

theorem closeSession_swallows_engine_errors:
  assumes "map_of (sessions s) sid = Some x"
    and "(\<exists>(pid, pg) \<in> set (pages x). page_close eng pg \<noteq> None) \<or>
         context_close eng (browserContext x) \<noteq> None"
  shows "fst (session_close eng x) = Inr () \<and>
         (\<forall>err. context_close eng (browserContext x) = Some err \<longrightarrow>
                fst (session_close_body eng x) = Inl (EngineError err)) \<and>
         fst (closeSession eng sid s) = Inr True \<and>
         map_of (sessions (snd (closeSession eng sid s))) sid = None \<and>
         sessions (snd (closeSession eng sid s)) = AList.delete sid (sessions s)"
  using assms(1)
  by (simp add: closeSession_present session_close_eq map_of_delete_same
        session_close_body_def Let_def)

theorem closeSession_swallows_engine_errors_witness:
  "map_of (sessions ex_AB) ''A'' = Some ex_session_A \<and>
   page_close engine_down 100 = Some ''Target closed'' \<and>
   context_close engine_down 10 = Some ''Target closed'' \<and>
   fst (session_close_body engine_down ex_session_A) = Inl (EngineError ''Target closed'') \<and>
   fst (closeSession engine_down ''A'' ex_AB) = Inr True \<and>
   map_of (sessions (snd (closeSession engine_down ''A'' ex_AB))) ''A'' = None"
proof -
  have fails: "context_close engine_down (browserContext ex_session_A) = Some ''Target closed''"
              "page_close engine_down 100 = Some ''Target closed''"
              "context_close engine_down 10 = Some ''Target closed''"
    by (simp_all add: engine_down_def)
  from closeSession_swallows_engine_errors [of ex_AB "''A''" ex_session_A engine_down]
       ex_AB_present fails
  show ?thesis by (simp add: map_of_delete_same)
qed

section \<open>Creating a page\<close>

lemma getSession_present:
  "map_of (sessions s) sid = Some x \<Longrightarrow>
   getSession now sid s =
     (Some (x\<lparr>lastActivity := now\<rparr>),
      set_sessions (AList.update sid (x\<lparr>lastActivity := now\<rparr>) (sessions s)) s)"
  by (simp add: getSession_def Let_def)

lemma getSession_absent: "map_of (sessions s) sid = None \<Longrightarrow> getSession now sid s = (None, s)"
  by (simp add: getSession_def)

lemma createPage_absent:
  "map_of (sessions s) sid = None \<Longrightarrow>
   createPage cfg eng t1 t2 pid sid url s = (Inl (SessionNotFound sid), s)"
  by (simp add: createPage_def getSession_absent)

lemma createPage_newPage_fails:
  "map_of (sessions s) sid = Some x \<Longrightarrow> newPage eng (browserContext x) = Inl err \<Longrightarrow>
   createPage cfg eng t1 t2 pid sid url s =
     (Inl (EngineError err),
      called [NewPage (browserContext x)]
        (set_sessions (AList.update sid (x\<lparr>lastActivity := t1\<rparr>) (sessions s)) s))"
  by (simp add: createPage_def getSession_present)

lemma createPage_no_url:
  "map_of (sessions s) sid = Some x \<Longrightarrow> newPage eng (browserContext x) = Inr pg \<Longrightarrow>
   \<not> truthy url \<Longrightarrow>
   createPage cfg eng t1 t2 pid sid url s = (Inr pid, registered sid t2 pid pg x s)"
  by (simp add: createPage_def getSession_present addPage_def registered_def set_sessions_called)

lemma createPage_goto:
  "map_of (sessions s) sid = Some x \<Longrightarrow> newPage eng (browserContext x) = Inr pg \<Longrightarrow>
   truthy url \<Longrightarrow>
   createPage cfg eng t1 t2 pid sid url s =
     ((case page_goto eng pg url (Some (MAX_PAGE_LOAD_TIME cfg * 1000)) of
         Inl err \<Rightarrow> Inl (EngineError err) | Inr r \<Rightarrow> Inr pid),
      called [Goto pg url (Some (MAX_PAGE_LOAD_TIME cfg * 1000))] (registered sid t2 pid pg x s))"
  by (simp add: createPage_def getSession_present addPage_def registered_def set_sessions_called
           split: sum.splits)

lemma update_keys_present:
  "map_of al k = Some v \<Longrightarrow> map fst (AList.update k w al) = map fst al"
  by (simp add: update_keys) (metis domI dom_map_of_conv_image_fst)

lemma createPage_keys:
  assumes "map_of (sessions s) sid = Some x"
  shows "map fst (sessions (snd (createPage cfg eng t1 t2 pid sid url s))) = map fst (sessions s)"
proof (cases "newPage eng (browserContext x)")
  case (Inl err)
  with assms show ?thesis by (simp add: createPage_newPage_fails update_keys_present)
next
  case (Inr pg)
  with assms show ?thesis
    by (cases "truthy url") (simp_all add: createPage_goto createPage_no_url update_keys_present)
qed

lemma createPage_keeps_session:
  assumes "map_of (sessions s) sid = Some x"
  shows "\<exists>y. map_of (sessions (snd (createPage cfg eng t1 t2 pid sid url s))) sid = Some y"
proof (cases "newPage eng (browserContext x)")
  case (Inl err)
  with assms show ?thesis by (simp add: createPage_newPage_fails update_conv')
next
  case (Inr pg)
  with assms show ?thesis
    by (cases "truthy url") (simp_all add: createPage_goto createPage_no_url update_conv')
qed

text \<open>
  Claim C6. \<open>createPage\<close> throws the not-found error, and changes nothing, when the
  session id is absent. When the session is present and a (non-empty) url is given, the
  page is navigated with the timeout \<^verbatim>\<open>MAX_PAGE_LOAD_TIME * 1000\<close>, and a rejected
  navigation is thrown to the caller. Whatever the outcome, a session that was in the
  table is still in the table afterwards, and the table has the same keys.
\<close>

theorem createPage_not_found_or_session_kept:
  "(map_of (sessions s) sid = None \<longrightarrow>
      createPage cfg eng t1 t2 pid sid url s = (Inl (SessionNotFound sid), s)) \<and>
   (map_of (sessions s) sid = Some x \<and> newPage eng (browserContext x) = Inr pg \<and> truthy url \<longrightarrow>
      engineCalls (snd (createPage cfg eng t1 t2 pid sid url s)) =
        engineCalls s @
          [NewPage (browserContext x), Goto pg url (Some (MAX_PAGE_LOAD_TIME cfg * 1000))] \<and>
      (\<forall>err. page_goto eng pg url (Some (MAX_PAGE_LOAD_TIME cfg * 1000)) = Inl err \<longrightarrow>
         fst (createPage cfg eng t1 t2 pid sid url s) = Inl (EngineError err))) \<and>
   (map_of (sessions s) sid = Some x \<longrightarrow>
      (\<exists>y. map_of (sessions (snd (createPage cfg eng t1 t2 pid sid url s))) sid = Some y) \<and>
      map fst (sessions (snd (createPage cfg eng t1 t2 pid sid url s))) = map fst (sessions s))"
proof (intro conjI impI)
  assume "map_of (sessions s) sid = None"
  then show "createPage cfg eng t1 t2 pid sid url s = (Inl (SessionNotFound sid), s)"
    by (rule createPage_absent)
next
  assume a: "map_of (sessions s) sid = Some x \<and> newPage eng (browserContext x) = Inr pg \<and> truthy url"
  then show "engineCalls (snd (createPage cfg eng t1 t2 pid sid url s)) =
        engineCalls s @
          [NewPage (browserContext x), Goto pg url (Some (MAX_PAGE_LOAD_TIME cfg * 1000))]"
    by (simp add: createPage_goto)
  from a show "\<forall>err. page_goto eng pg url (Some (MAX_PAGE_LOAD_TIME cfg * 1000)) = Inl err \<longrightarrow>
         fst (createPage cfg eng t1 t2 pid sid url s) = Inl (EngineError err)"
    by (simp add: createPage_goto)
next
  assume "map_of (sessions s) sid = Some x"
  then show "\<exists>y. map_of (sessions (snd (createPage cfg eng t1 t2 pid sid url s))) sid = Some y"
    by (rule createPage_keeps_session)
next
  assume "map_of (sessions s) sid = Some x"
  then show "map fst (sessions (snd (createPage cfg eng t1 t2 pid sid url s))) = map fst (sessions s)"
    by (rule createPage_keys)
qed

theorem createPage_not_found_or_session_kept_witness:
  "map_of (sessions ex_A) ''C'' = None \<and>
   createPage ex_cfg (engine_nav_fails 10 101) 3000 3001 ''Q'' ''C'' (Some ''http://a.test'') ex_A
     = (Inl (SessionNotFound ''C''), ex_A) \<and>
   map_of (sessions ex_A) ''A'' = Some ex_session_A \<and>
   newPage (engine_nav_fails 10 101) 10 = Inr 101 \<and> truthy (Some ''http://a.test'') \<and>
   engineCalls (snd (createPage ex_cfg (engine_nav_fails 10 101) 3000 3001 ''Q'' ''A''
                       (Some ''http://a.test'') ex_A)) =
     engineCalls ex_A @ [NewPage 10, Goto 101 (Some ''http://a.test'') (Some 30000)] \<and>
   fst (createPage ex_cfg (engine_nav_fails 10 101) 3000 3001 ''Q'' ''A''
          (Some ''http://a.test'') ex_A) = Inl (EngineError ''Timeout 30000ms exceeded'') \<and>
   map fst (sessions (snd (createPage ex_cfg (engine_nav_fails 10 101) 3000 3001 ''Q'' ''A''
                             (Some ''http://a.test'') ex_A))) = [''A'']"
proof -
  have absent: "map_of (sessions ex_A) ''C'' = None"
    by (simp add: ex_A_eq sessions_def)
  have facts: "map fst (sessions ex_A) = [''A'']" "MAX_PAGE_LOAD_TIME ex_cfg = 30"
    by (simp_all add: ex_A_eq sessions_def ex_cfg_def)
  have eng: "newPage (engine_nav_fails 10 101) 10 = Inr 101"
    "page_goto (engine_nav_fails 10 101) 101 (Some ''http://a.test'') (Some 30000)
       = Inl ''Timeout 30000ms exceeded''"
    by (simp_all add: ex_engine_defs)
  from createPage_not_found_or_session_kept
         [of ex_A "''C''" ex_cfg "engine_nav_fails 10 101" 3000 3001 "''Q''"
             "Some ''http://a.test''" ex_session_A 101]
       absent
  have 1: "createPage ex_cfg (engine_nav_fails 10 101) 3000 3001 ''Q'' ''C''
             (Some ''http://a.test'') ex_A = (Inl (SessionNotFound ''C''), ex_A)"
    by simp
  from createPage_not_found_or_session_kept
         [of ex_A "''A''" ex_cfg "engine_nav_fails 10 101" 3000 3001 "''Q''"
             "Some ''http://a.test''" ex_session_A 101]
       ex_A_present facts eng
  have 2: "engineCalls (snd (createPage ex_cfg (engine_nav_fails 10 101) 3000 3001 ''Q'' ''A''
                       (Some ''http://a.test'') ex_A)) =
     engineCalls ex_A @ [NewPage 10, Goto 101 (Some ''http://a.test'') (Some 30000)] \<and>
   fst (createPage ex_cfg (engine_nav_fails 10 101) 3000 3001 ''Q'' ''A''
          (Some ''http://a.test'') ex_A) = Inl (EngineError ''Timeout 30000ms exceeded'') \<and>
   map fst (sessions (snd (createPage ex_cfg (engine_nav_fails 10 101) 3000 3001 ''Q'' ''A''
                             (Some ''http://a.test'') ex_A))) = [''A'']"
    by (simp add: ex_session_A_fields)
  from 1 2 absent ex_A_present eng show ?thesis by simp
qed

text \<open>
  Claim C10. \<open>createPage\<close> is not atomic when the navigation fails: with the session
  present, the page opened and a url given, a rejected \<^verbatim>\<open>goto\<close> makes \<open>createPage\<close>
  throw, so no page id is returned, while the session in the table already holds the new
  page under the id drawn for it and has its \<open>lastActivity\<close> set to the clock read
  by \<^verbatim>\<open>addPage\<close>.
\<close>

theorem createPage_failed_navigation_leaves_page:
  assumes "map_of (sessions s) sid = Some x"
    and "newPage eng (browserContext x) = Inr pg"
    and "truthy url"
    and "page_goto eng pg url (Some (MAX_PAGE_LOAD_TIME cfg * 1000)) = Inl err"
  shows "fst (createPage cfg eng t1 t2 pid sid url s) = Inl (EngineError err) \<and>
         map_of (sessions (snd (createPage cfg eng t1 t2 pid sid url s))) sid =
           Some (x\<lparr>pages := AList.update pid pg (pages x), lastActivity := t2\<rparr>) \<and>
         map_of (AList.update pid pg (pages x)) pid = Some pg \<and>
         fst (createPage_w cfg eng t1 t2 pid sid url s) = Inl (EngineError err) \<and>
         wsBroadcasts (snd (createPage_w cfg eng t1 t2 pid sid url s)) = wsBroadcasts s"
  using assms by (simp add: createPage_goto update_conv' createPage_w_def)

theorem createPage_failed_navigation_leaves_page_witness:
  "map_of (sessions ex_A) ''A'' = Some ex_session_A \<and>
   newPage (engine_nav_fails 10 101) 10 = Inr 101 \<and> truthy (Some ''http://a.test'') \<and>
   page_goto (engine_nav_fails 10 101) 101 (Some ''http://a.test'') (Some 30000)
     = Inl ''Timeout 30000ms exceeded'' \<and>
   fst (createPage ex_cfg (engine_nav_fails 10 101) 3000 3001 ''Q'' ''A''
          (Some ''http://a.test'') ex_A) = Inl (EngineError ''Timeout 30000ms exceeded'') \<and>
   map_option pages
     (map_of (sessions (snd (createPage ex_cfg (engine_nav_fails 10 101) 3000 3001 ''Q'' ''A''
                               (Some ''http://a.test'') ex_A))) ''A'')
     = Some [(''P'', 100), (''Q'', 101)] \<and>
   map_option lastActivity
     (map_of (sessions (snd (createPage ex_cfg (engine_nav_fails 10 101) 3000 3001 ''Q'' ''A''
                               (Some ''http://a.test'') ex_A))) ''A'')
     = Some 3001"
proof -
  have facts: "MAX_PAGE_LOAD_TIME ex_cfg * 1000 = 30000"
    by (simp add: ex_cfg_def)
  have eng: "newPage (engine_nav_fails 10 101) 10 = Inr 101"
    "page_goto (engine_nav_fails 10 101) 101 (Some ''http://a.test'') (Some 30000)
       = Inl ''Timeout 30000ms exceeded''"
    by (simp_all add: ex_engine_defs)
  have "truthy (Some ''http://a.test'')" by simp
  from createPage_failed_navigation_leaves_page
         [of ex_A "''A''" ex_session_A "engine_nav_fails 10 101" 101 "Some ''http://a.test''"
             ex_cfg "''Timeout 30000ms exceeded''" 3000 3001 "''Q''"]
       ex_A_present facts eng this
  show ?thesis by (simp add: ex_session_A_fields)
qed

section \<open>Creating a session\<close>

lemma createSession_at_capacity:
  "int (length (sessions s)) \<ge> maxBrowsers (browserPool s) \<Longrightarrow>
   createSession eng now sid userId md s = (Inl PoolAtCapacity, s)"
  by (simp add: createSession_def)

lemma createSession_capacity_iff:
  "fst (createSession eng now sid userId md s) = Inl PoolAtCapacity
     \<longleftrightarrow> int (length (sessions s)) \<ge> maxBrowsers (browserPool s)"
  by (simp add: createSession_def launchBrowser_def Let_def
        split: sum.splits list.splits prod.splits)

lemma createSession_ok:
  "int (length (sessions s)) < maxBrowsers (browserPool s) \<Longrightarrow>
   browsers (browserPool s) = b # bs \<Longrightarrow> newContext eng b = Inr c \<Longrightarrow>
   createSession eng now sid userId md s =
     (Inr sid,
      set_sessions
        (AList.update sid ((BrowserSession_new sid c now)\<lparr>metadata := session_metadata userId md\<rparr>)
           (sessions s))
        (called [NewContext b] s))"
  by (simp add: createSession_def Let_def)

lemma createSession_launch_ok:
  "int (length (sessions s)) < maxBrowsers (browserPool s) \<Longrightarrow>
   browsers (browserPool s) = [] \<Longrightarrow> launch eng = Inr b \<Longrightarrow> newContext eng b = Inr c \<Longrightarrow>
   createSession eng now sid userId md s =
     (Inr sid,
      set_sessions
        (AList.update sid ((BrowserSession_new sid c now)\<lparr>metadata := session_metadata userId md\<rparr>)
           (sessions s))
        (called [NewContext b] (set_browsers [b] (called [Launch] s))))"
  by (simp add: createSession_def launchBrowser_def Let_def)

lemma createSession_newContext_fails:
  "int (length (sessions s)) < maxBrowsers (browserPool s) \<Longrightarrow>
   browsers (browserPool s) = b # bs \<Longrightarrow> newContext eng b = Inl err \<Longrightarrow>
   createSession eng now sid userId md s = (Inl (EngineError err), called [NewContext b] s)"
  by (simp add: createSession_def Let_def)

lemma createSession_launch_fails:
  "int (length (sessions s)) < maxBrowsers (browserPool s) \<Longrightarrow>
   browsers (browserPool s) = [] \<Longrightarrow> launch eng = Inl err \<Longrightarrow>
   createSession eng now sid userId md s = (Inl (EngineError err), called [Launch] s)"
  by (simp add: createSession_def launchBrowser_def Let_def)

lemma createSession_launch_newContext_fails:
  "int (length (sessions s)) < maxBrowsers (browserPool s) \<Longrightarrow>
   browsers (browserPool s) = [] \<Longrightarrow> launch eng = Inr b \<Longrightarrow> newContext eng b = Inl err \<Longrightarrow>
   createSession eng now sid userId md s =
     (Inl (EngineError err), called [NewContext b] (set_browsers [b] (called [Launch] s)))"
  by (simp add: createSession_def launchBrowser_def Let_def)

lemma createSession_error_keeps_sessions:
  "fst (createSession eng now sid userId md s) = Inl err \<Longrightarrow>
   sessions (snd (createSession eng now sid userId md s)) = sessions s"
  by (auto simp add: createSession_def launchBrowser_def Let_def
        split: sum.splits list.splits prod.splits if_splits)

lemma length_update_fresh:
  "k \<notin> fst ` set al \<Longrightarrow> length (AList.update k v al) = Suc (length al)"
  by (induction al) auto

lemma length_update_le: "length (AList.update k v al) \<le> Suc (length al)"
  by (induction al) auto

lemma acquire_at_capacity:
  "int (length (sessions s)) \<ge> maxBrowsers (browserPool s) \<Longrightarrow>
   acquire eng now sid user_id md s =
     (GrpcError RESOURCE_EXHAUSTED ''Browser pool at capacity'', s)"
  by (simp add: acquire_def createSession_w_def createSession_at_capacity)

text \<open>
  Claim C2, as the code has it. \<open>createSession\<close> throws the capacity error exactly when
  the number of active sessions has reached \<^verbatim>\<open>maxBrowsers\<close>, and \<open>acquire\<close> then
  answers \<^verbatim>\<open>RESOURCE_EXHAUSTED\<close>. Below the maximum it asks the first engine of the
  list for a context (an empty list is first filled by one launch); when the engine
  calls succeed it stores a new session under the id drawn (with the context of that
  engine, no pages, \<open>lastActivity = createdAt = now\<close>), returns the id, and the table
  grows by one when the id was not a key before; when an engine call is rejected,
  \<open>createSession\<close> throws the engine's error and the table is unchanged.
\<close>

theorem createSession_capacity_or_first_engine:
  "(fst (createSession eng now sid userId md s) = Inl PoolAtCapacity
      \<longleftrightarrow> int (length (sessions s)) \<ge> maxBrowsers (browserPool s)) \<and>
   (int (length (sessions s)) \<ge> maxBrowsers (browserPool s) \<longrightarrow>
      createSession eng now sid userId md s = (Inl PoolAtCapacity, s) \<and>
      acquire eng now sid userId md s =
        (GrpcError RESOURCE_EXHAUSTED ''Browser pool at capacity'', s)) \<and>
   (int (length (sessions s)) < maxBrowsers (browserPool s) \<and>
    browsers (browserPool s) = b # bs \<and> newContext eng b = Inr c \<longrightarrow>
      fst (createSession eng now sid userId md s) = Inr sid \<and>
      engineCalls (snd (createSession eng now sid userId md s)) = engineCalls s @ [NewContext b] \<and>
      map_of (sessions (snd (createSession eng now sid userId md s))) sid =
        Some \<lparr>sessionId = sid, browserContext = c, createdAt = now, lastActivity = now,
              pages = [], metadata = session_metadata userId md\<rparr> \<and>
      (sid \<notin> fst ` set (sessions s) \<longrightarrow>
         length (sessions (snd (createSession eng now sid userId md s)))
           = Suc (length (sessions s)))) \<and>
   (int (length (sessions s)) < maxBrowsers (browserPool s) \<and>
    browsers (browserPool s) = b # bs \<and> newContext eng b = Inl err \<longrightarrow>
      fst (createSession eng now sid userId md s) = Inl (EngineError err) \<and>
      sessions (snd (createSession eng now sid userId md s)) = sessions s) \<and>
   (int (length (sessions s)) < maxBrowsers (browserPool s) \<and>
    browsers (browserPool s) = [] \<and> launch eng = Inr b \<and> newContext eng b = Inr c \<longrightarrow>
      fst (createSession eng now sid userId md s) = Inr sid \<and>
      engineCalls (snd (createSession eng now sid userId md s))
        = engineCalls s @ [Launch, NewContext b] \<and>
      browsers (browserPool (snd (createSession eng now sid userId md s))) = [b] \<and>
      map_of (sessions (snd (createSession eng now sid userId md s))) sid =
        Some \<lparr>sessionId = sid, browserContext = c, createdAt = now, lastActivity = now,
              pages = [], metadata = session_metadata userId md\<rparr>) \<and>
   (int (length (sessions s)) < maxBrowsers (browserPool s) \<and>
    browsers (browserPool s) = [] \<and> launch eng = Inl err \<longrightarrow>
      fst (createSession eng now sid userId md s) = Inl (EngineError err) \<and>
      sessions (snd (createSession eng now sid userId md s)) = sessions s) \<and>
   (int (length (sessions s)) < maxBrowsers (browserPool s) \<and>
    browsers (browserPool s) = [] \<and> launch eng = Inr b \<and> newContext eng b = Inl err \<longrightarrow>
      fst (createSession eng now sid userId md s) = Inl (EngineError err) \<and>
      sessions (snd (createSession eng now sid userId md s)) = sessions s)"
proof (intro conjI impI)
  show "fst (createSession eng now sid userId md s) = Inl PoolAtCapacity
          \<longleftrightarrow> int (length (sessions s)) \<ge> maxBrowsers (browserPool s)"
    by (rule createSession_capacity_iff)
next
  assume "maxBrowsers (browserPool s) \<le> int (length (sessions s))"
  then show "createSession eng now sid userId md s = (Inl PoolAtCapacity, s)"
    and "acquire eng now sid userId md s =
           (GrpcError RESOURCE_EXHAUSTED ''Browser pool at capacity'', s)"
    by (simp_all add: createSession_at_capacity acquire_at_capacity)
next
  assume a: "int (length (sessions s)) < maxBrowsers (browserPool s) \<and>
    browsers (browserPool s) = b # bs \<and> newContext eng b = Inr c"
  then show "fst (createSession eng now sid userId md s) = Inr sid"
    and "engineCalls (snd (createSession eng now sid userId md s)) = engineCalls s @ [NewContext b]"
    and "map_of (sessions (snd (createSession eng now sid userId md s))) sid =
        Some \<lparr>sessionId = sid, browserContext = c, createdAt = now, lastActivity = now,
              pages = [], metadata = session_metadata userId md\<rparr>"
    by (simp_all add: createSession_ok update_conv' BrowserSession_new_def)
  assume "sid \<notin> fst ` set (sessions s)"
  with a show "length (sessions (snd (createSession eng now sid userId md s)))
           = Suc (length (sessions s))"
    by (simp add: createSession_ok length_update_fresh)
next
  assume "int (length (sessions s)) < maxBrowsers (browserPool s) \<and>
    browsers (browserPool s) = b # bs \<and> newContext eng b = Inl err"
  then show "fst (createSession eng now sid userId md s) = Inl (EngineError err)"
    and "sessions (snd (createSession eng now sid userId md s)) = sessions s"
    by (simp_all add: createSession_newContext_fails)
next
  assume "int (length (sessions s)) < maxBrowsers (browserPool s) \<and>
    browsers (browserPool s) = [] \<and> launch eng = Inr b \<and> newContext eng b = Inr c"
  then show "fst (createSession eng now sid userId md s) = Inr sid"
    and "engineCalls (snd (createSession eng now sid userId md s))
           = engineCalls s @ [Launch, NewContext b]"
    and "browsers (browserPool (snd (createSession eng now sid userId md s))) = [b]"
    and "map_of (sessions (snd (createSession eng now sid userId md s))) sid =
        Some \<lparr>sessionId = sid, browserContext = c, createdAt = now, lastActivity = now,
              pages = [], metadata = session_metadata userId md\<rparr>"
    by (simp_all add: createSession_launch_ok update_conv' BrowserSession_new_def)
next
  assume "int (length (sessions s)) < maxBrowsers (browserPool s) \<and>
    browsers (browserPool s) = [] \<and> launch eng = Inl err"
  then show "fst (createSession eng now sid userId md s) = Inl (EngineError err)"
    and "sessions (snd (createSession eng now sid userId md s)) = sessions s"
    by (simp_all add: createSession_launch_fails)
next
  assume "int (length (sessions s)) < maxBrowsers (browserPool s) \<and>
    browsers (browserPool s) = [] \<and> launch eng = Inr b \<and> newContext eng b = Inl err"
  then show "fst (createSession eng now sid userId md s) = Inl (EngineError err)"
    and "sessions (snd (createSession eng now sid userId md s)) = sessions s"
    by (simp_all add: createSession_launch_newContext_fails)
qed

theorem createSession_capacity_or_first_engine_witness:
  "maxBrowsers (browserPool ex_AB) \<le> int (length (sessions ex_AB)) \<and>
   createSession (engine_ok 1 12 0) 50000 ''C'' None [] ex_AB = (Inl PoolAtCapacity, ex_AB) \<and>
   acquire (engine_ok 1 12 0) 50000 ''C'' None [] ex_AB
     = (GrpcError RESOURCE_EXHAUSTED ''Browser pool at capacity'', ex_AB) \<and>
   int (length (sessions ex_A)) < maxBrowsers (browserPool ex_A) \<and>
   browsers (browserPool ex_A) = 1 # [2] \<and> newContext (engine_ok 1 12 0) 1 = Inr 12 \<and>
   ''C'' \<notin> fst ` set (sessions ex_A) \<and>
   fst (createSession (engine_ok 1 12 0) 50000 ''C'' None [] ex_A) = Inr ''C'' \<and>
   engineCalls (snd (createSession (engine_ok 1 12 0) 50000 ''C'' None [] ex_A))
     = engineCalls ex_A @ [NewContext 1] \<and>
   length (sessions (snd (createSession (engine_ok 1 12 0) 50000 ''C'' None [] ex_A))) = 2 \<and>
   newContext engine_down 1 = Inl ''Target closed'' \<and>
   fst (createSession engine_down 50000 ''C'' None [] ex_A) = Inl (EngineError ''Target closed'') \<and>
   sessions (snd (createSession engine_down 50000 ''C'' None [] ex_A)) = sessions ex_A \<and>
   int (length (sessions ex_fresh)) < maxBrowsers (browserPool ex_fresh) \<and>
   browsers (browserPool ex_fresh) = [] \<and>
   launch (engine_ok 1 12 0) = Inr 1 \<and>
   fst (createSession (engine_ok 1 12 0) 50000 ''C'' None [] ex_fresh) = Inr ''C'' \<and>
   engineCalls (snd (createSession (engine_ok 1 12 0) 50000 ''C'' None [] ex_fresh))
     = [Launch, NewContext 1] \<and>
   launch engine_down = Inl ''Failed to launch'' \<and>
   fst (createSession engine_down 50000 ''C'' None [] ex_fresh)
     = Inl (EngineError ''Failed to launch'') \<and>
   sessions (snd (createSession engine_down 50000 ''C'' None [] ex_fresh)) = [] \<and>
   launch (engine_no_context 1) = Inr 1 \<and>
   newContext (engine_no_context 1) 1 = Inl ''Target closed'' \<and>
   fst (createSession (engine_no_context 1) 50000 ''C'' None [] ex_fresh)
     = Inl (EngineError ''Target closed'') \<and>
   sessions (snd (createSession (engine_no_context 1) 50000 ''C'' None [] ex_fresh)) = []"
proof -
  have full: "maxBrowsers (browserPool ex_AB) \<le> int (length (sessions ex_AB))"
    by (simp add: ex_AB_eq sessions_def)
  have room: "int (length (sessions ex_A)) < maxBrowsers (browserPool ex_A)"
    "browsers (browserPool ex_A) = 1 # [2]" "''C'' \<notin> fst ` set (sessions ex_A)"
    "length (sessions ex_A) = 1"
    by (simp_all add: ex_A_eq sessions_def)
  have eng: "newContext (engine_ok 1 12 0) 1 = Inr 12"
    "newContext engine_down 1 = Inl ''Target closed''"
    "launch (engine_ok 1 12 0) = Inr 1" "launch engine_down = Inl ''Failed to launch''"
    "launch (engine_no_context 1) = Inr 1"
    "newContext (engine_no_context 1) 1 = Inl ''Target closed''"
    by (simp_all add: ex_engine_defs)
  have fresh: "int (length (sessions ex_fresh)) < maxBrowsers (browserPool ex_fresh)"
    "browsers (browserPool ex_fresh) = []" "sessions ex_fresh = []" "engineCalls ex_fresh = []"
    by (simp_all add: ex_fresh_eq sessions_def)
  from createSession_capacity_or_first_engine
         [of "engine_ok 1 12 0" 50000 "''C''" None "[]" ex_AB 1 "[2]" 12 "''Target closed''"]
       full
  have 1: "createSession (engine_ok 1 12 0) 50000 ''C'' None [] ex_AB = (Inl PoolAtCapacity, ex_AB)"
    "acquire (engine_ok 1 12 0) 50000 ''C'' None [] ex_AB
       = (GrpcError RESOURCE_EXHAUSTED ''Browser pool at capacity'', ex_AB)"
    by simp_all
  from createSession_capacity_or_first_engine
         [of "engine_ok 1 12 0" 50000 "''C''" None "[]" ex_A 1 "[2]" 12 "''Target closed''"]
       room eng
  have 2: "fst (createSession (engine_ok 1 12 0) 50000 ''C'' None [] ex_A) = Inr ''C''"
    "engineCalls (snd (createSession (engine_ok 1 12 0) 50000 ''C'' None [] ex_A))
       = engineCalls ex_A @ [NewContext 1]"
    "length (sessions (snd (createSession (engine_ok 1 12 0) 50000 ''C'' None [] ex_A))) = 2"
    by simp_all
  from createSession_capacity_or_first_engine
         [of engine_down 50000 "''C''" None "[]" ex_A 1 "[2]" 12 "''Target closed''"]
       room eng
  have 3: "fst (createSession engine_down 50000 ''C'' None [] ex_A)
             = Inl (EngineError ''Target closed'')"
    "sessions (snd (createSession engine_down 50000 ''C'' None [] ex_A)) = sessions ex_A"
    by simp_all
  from createSession_capacity_or_first_engine
         [of "engine_ok 1 12 0" 50000 "''C''" None "[]" ex_fresh 1 "[2]" 12 "''Failed to launch''"]
       fresh eng
  have 4: "fst (createSession (engine_ok 1 12 0) 50000 ''C'' None [] ex_fresh) = Inr ''C''"
    "engineCalls (snd (createSession (engine_ok 1 12 0) 50000 ''C'' None [] ex_fresh))
       = [Launch, NewContext 1]"
    by simp_all
  from createSession_capacity_or_first_engine
         [of engine_down 50000 "''C''" None "[]" ex_fresh 1 "[2]" 12 "''Failed to launch''"]
       fresh eng
  have 5: "fst (createSession engine_down 50000 ''C'' None [] ex_fresh)
             = Inl (EngineError ''Failed to launch'')"
    "sessions (snd (createSession engine_down 50000 ''C'' None [] ex_fresh)) = []"
    by simp_all
  from createSession_capacity_or_first_engine
         [of "engine_no_context 1" 50000 "''C''" None "[]" ex_fresh 1 "[2]" 12 "''Target closed''"]
       fresh eng
  have 6: "fst (createSession (engine_no_context 1) 50000 ''C'' None [] ex_fresh)
             = Inl (EngineError ''Target closed'')"
    "sessions (snd (createSession (engine_no_context 1) 50000 ''C'' None [] ex_fresh)) = []"
    by simp_all
  from full room eng fresh 1 2 3 4 5 6 show ?thesis by simp
qed

text \<open>
  The claim as written fails: with no active session and \<^verbatim>\<open>maxBrowsers = 2\<close> a rejected
  \<^verbatim>\<open>newContext\<close> makes \<open>createSession\<close> throw, \<open>acquire\<close> answers
  \<^verbatim>\<open>RESOURCE_EXHAUSTED\<close>, and no session is registered.
\<close>

theorem createSession_fails_below_capacity_counterexample:
  "int (length (sessions ex_started)) \<noteq> maxBrowsers (browserPool ex_started) \<and>
   fst (createSession engine_down 5000 ''C'' None [] ex_started)
     = Inl (EngineError ''Target closed'') \<and>
   fst (acquire engine_down 5000 ''C'' None [] ex_started)
     = GrpcError RESOURCE_EXHAUSTED ''Target closed'' \<and>
   sessions (snd (acquire engine_down 5000 ''C'' None [] ex_started)) = []"
  by (simp add: ex_started_eq acquire_def or_null_def createSession_w_def createSession_def
        sessions_def called_def engine_down_def)

section \<open>Engine disconnection\<close>

lemma onDisconnected_eq:
  "onDisconnected b s = s\<lparr>browserPool := (browserPool s)\<lparr>browsers := remove1 b (browsers (browserPool s))\<rparr>\<rparr>"
  by (simp add: onDisconnected_def set_browsers_def)

text \<open>
  Claim C4. The repository's own documents state the behaviour of the claim as delivered:
  the service README lists "Crash Recovery: Automatic browser restart on catastrophic
  failure" and "AC-BP2: Catastrophic crash triggers retry and auto-heal within 10s", and
  the acceptance document lists "Automatic browser replacement on crash", "New browsers
  launched to replace crashed instances" and "Pool maintains capacity even during
  crashes". The \<^verbatim>\<open>'disconnected'\<close> handler does the first half only. After
  \<^verbatim>\<open>start()\<close> with \<^verbatim>\<open>maxBrowsers = 2\<close> has launched browsers 1 and 2, the
  disconnection of browser 1 removes it from the list and issues no engine call; the pool
  is then below the two engines it was started with, and no launch follows from a later
  sweep or from a later \<open>createSession\<close>, which launches only when the list is empty and
  here uses the engine that is left.
\<close>

theorem onDisconnected_no_relaunch:
  "browsers (browserPool ex_started) = [1, 2] \<and>
   engineCalls ex_started = [Launch, Launch] \<and>
   browsers (browserPool (onDisconnected 1 ex_started)) = [2] \<and>
   int (length (browsers (browserPool (onDisconnected 1 ex_started))))
     < maxBrowsers (browserPool (onDisconnected 1 ex_started)) \<and>
   engineCalls (onDisconnected 1 ex_started) = [Launch, Launch] \<and>
   engineCalls (run ex_cfg [Disconnected 1, Sweep (engine_ok 3 0 0) 9000,
                            CreateSession (engine_ok 3 10 0) 9500 ''A'' None []] ex_started)
     = [Launch, Launch, NewContext 2] \<and>
   browsers (browserPool (run ex_cfg [Disconnected 1, Sweep (engine_ok 3 0 0) 9000,
                            CreateSession (engine_ok 3 10 0) 9500 ''A'' None []] ex_started))
     = [2]"
  by (simp add: ex_started_eq onDisconnected_def set_browsers_def cleanupExpiredSessions_def
        expiredSessions_def sessions_def createSession_w_def createSession_def called_def
        broadcast_def set_sessions_def engine_ok_def Let_def)

section \<open>The reaper\<close>


lemma closeSession_w_present:
  "map_of (sessions s) sid = Some x \<Longrightarrow>
   closeSession_w eng sid s =
     (Inr True,
      broadcast ''session.closed'' (SessionClosedP sid)
        (called (closePages eng (pages x) @ [ContextClose (browserContext x)])
           (set_sessions (AList.delete sid (sessions s)) s)))"
  by (simp add: closeSession_w_def closeSession_present)

lemma closeSession_w_absent:
  "map_of (sessions s) sid = None \<Longrightarrow> closeSession_w eng sid s = (Inr False, s)"
  by (simp add: closeSession_w_def closeSession_absent)

lemma closeSession_w_sessions:
  "sessions (snd (closeSession_w eng sid s)) = AList.delete sid (sessions s)"
proof (cases "map_of (sessions s) sid")
  case None
  then have "sid \<notin> fst ` set (sessions s)" by (simp add: map_of_eq_None_iff)
  with None show ?thesis by (simp add: closeSession_w_absent)
next
  case (Some x)
  then show ?thesis by (simp add: closeSession_w_present)
qed

lemma closeSession_w_result: "\<exists>r. fst (closeSession_w eng sid s) = Inr r"
  by (cases "map_of (sessions s) sid") (auto simp add: closeSession_w_present closeSession_w_absent)

lemma closeEach_Cons_w:
  "closeEach (closeSession_w eng) (k # ks) s =
     closeEach (closeSession_w eng) ks (snd (closeSession_w eng k s))"
proof -
  obtain r where "fst (closeSession_w eng k s) = Inr r"
    using closeSession_w_result by blast
  then show ?thesis by (cases "closeSession_w eng k s") simp
qed

lemma filter_delete_keys:
  "filter (\<lambda>(k', x). k' \<notin> set ks) (AList.delete k al) =
   filter (\<lambda>(k', x). k' \<notin> set (k # ks)) al"
  by (induction al) auto

lemma closeSession_w_pool_consts:
  "maxBrowsers (browserPool (snd (closeSession_w eng sid s))) = maxBrowsers (browserPool s)"
  "browserTimeout (browserPool (snd (closeSession_w eng sid s))) = browserTimeout (browserPool s)"
  "browsers (browserPool (snd (closeSession_w eng sid s))) = browsers (browserPool s)"
  by (cases "map_of (sessions s) sid";
      simp add: closeSession_w_present closeSession_w_absent)+

lemma closeEach_sessions:
  "sessions (snd (closeEach (closeSession_w eng) ks s)) =
     filter (\<lambda>(k, x). k \<notin> set ks) (sessions s)"
proof (induction ks arbitrary: s)
  case Nil
  then show ?case by simp
next
  case (Cons k ks)
  show ?case
    unfolding closeEach_Cons_w Cons.IH closeSession_w_sessions by (rule filter_delete_keys)
qed


lemma closeEach_pool_consts:
  "maxBrowsers (browserPool (snd (closeEach (closeSession_w eng) ks s))) = maxBrowsers (browserPool s) \<and>
   browserTimeout (browserPool (snd (closeEach (closeSession_w eng) ks s)))
     = browserTimeout (browserPool s) \<and>
   browsers (browserPool (snd (closeEach (closeSession_w eng) ks s))) = browsers (browserPool s)"
proof (induction ks arbitrary: s)
  case Nil
  then show ?case by simp
next
  case (Cons k ks)
  show ?case
    unfolding closeEach_Cons_w
    using Cons.IH [of "snd (closeSession_w eng k s)"] by (simp add: closeSession_w_pool_consts)
qed








section \<open>What one operation does to the session table\<close>

lemma createSession_shape:
  "sessions (snd (createSession eng now sid userId md s)) = sessions s \<or>
   (int (length (sessions s)) < maxBrowsers (browserPool s) \<and>
    (\<exists>x. lastActivity x = now \<and>
         sessions (snd (createSession eng now sid userId md s)) = AList.update sid x (sessions s)))"
proof (cases "int (length (sessions s)) < maxBrowsers (browserPool s)")
  case False
  then show ?thesis by (simp add: createSession_at_capacity)
next
  case True
  let ?new = "\<lambda>c. (BrowserSession_new sid c now)\<lparr>metadata := session_metadata userId md\<rparr>"
  have la: "lastActivity (?new c) = now" for c by (simp add: BrowserSession_new_def)
  have "sessions (snd (createSession eng now sid userId md s)) = sessions s \<or>
        (\<exists>c. sessions (snd (createSession eng now sid userId md s))
               = AList.update sid (?new c) (sessions s))"
    using True
    by (auto simp add: createSession_def launchBrowser_def Let_def
          split: sum.splits list.splits prod.splits)
  with True la show ?thesis by blast
qed

lemma createSession_max:
  "maxBrowsers (browserPool (snd (createSession eng now sid userId md s))) = maxBrowsers (browserPool s)"
  by (auto simp add: createSession_def launchBrowser_def Let_def
        split: sum.splits list.splits prod.splits if_splits)

lemma createSession_w_snd:
  "sessions (snd (createSession_w eng now sid userId md s))
     = sessions (snd (createSession eng now sid userId md s))"
  "maxBrowsers (browserPool (snd (createSession_w eng now sid userId md s)))
     = maxBrowsers (browserPool (snd (createSession eng now sid userId md s)))"
  by (cases "createSession eng now sid userId md s"; simp add: createSession_w_def split: sum.splits)+

lemma getSession_shape:
  "sessions (snd (getSession now sid s)) = sessions s \<or>
   (\<exists>x x'. map_of (sessions s) sid = Some x \<and> lastActivity x' \<in> set [now] \<and>
           sessions (snd (getSession now sid s)) = AList.update sid x' (sessions s))"
proof (cases "map_of (sessions s) sid")
  case None
  then show ?thesis by (simp add: getSession_absent)
next
  case (Some x)
  have "lastActivity (x\<lparr>lastActivity := now\<rparr>) \<in> set [now]" by simp
  with Some show ?thesis unfolding getSession_present [OF Some] by (intro disjI2 exI conjI) simp_all
qed

lemma getSession_max:
  "maxBrowsers (browserPool (snd (getSession now sid s))) = maxBrowsers (browserPool s)"
  by (cases "map_of (sessions s) sid") (simp_all add: getSession_present getSession_absent)

lemma getPage_snd: "snd (getPage now sid pid s) = snd (getSession now sid s)"
  by (simp add: getPage_def split: prod.splits option.splits)

lemma createPage_shape:
  "sessions (snd (createPage cfg eng t1 t2 pid sid url s)) = sessions s \<or>
   (\<exists>x x'. map_of (sessions s) sid = Some x \<and> lastActivity x' \<in> set [t1, t2] \<and>
           sessions (snd (createPage cfg eng t1 t2 pid sid url s)) = AList.update sid x' (sessions s))"
proof (cases "map_of (sessions s) sid")
  case None
  then show ?thesis by (simp add: createPage_absent)
next
  case (Some x)
  have "\<exists>x'. lastActivity x' \<in> set [t1, t2] \<and>
          sessions (snd (createPage cfg eng t1 t2 pid sid url s)) = AList.update sid x' (sessions s)"
  proof (cases "newPage eng (browserContext x)")
    case (Inl err)
    have "lastActivity (x\<lparr>lastActivity := t1\<rparr>) \<in> set [t1, t2]" by simp
    then show ?thesis
      unfolding createPage_newPage_fails [OF Some Inl] by (intro exI conjI) simp_all
  next
    case (Inr pg)
    have la: "lastActivity (x\<lparr>pages := AList.update pid pg (pages x), lastActivity := t2\<rparr>)
                \<in> set [t1, t2]" by simp
    have "sessions (snd (createPage cfg eng t1 t2 pid sid url s)) =
            AList.update sid (x\<lparr>pages := AList.update pid pg (pages x), lastActivity := t2\<rparr>)
              (sessions s)"
      using Some Inr by (cases "truthy url") (simp_all add: createPage_goto createPage_no_url)
    with la show ?thesis by blast
  qed
  with Some show ?thesis by blast
qed

lemma createPage_max:
  "maxBrowsers (browserPool (snd (createPage cfg eng t1 t2 pid sid url s))) = maxBrowsers (browserPool s)"
proof (cases "map_of (sessions s) sid")
  case None
  then show ?thesis by (simp add: createPage_absent)
next
  case (Some x)
  show ?thesis
  proof (cases "newPage eng (browserContext x)")
    case (Inl err)
    with Some show ?thesis by (simp add: createPage_newPage_fails)
  next
    case (Inr pg)
    with Some show ?thesis
      by (cases "truthy url") (simp_all add: createPage_goto createPage_no_url registered_def)
  qed
qed

lemma createPage_w_snd:
  "sessions (snd (createPage_w cfg eng t1 t2 pid sid url s))
     = sessions (snd (createPage cfg eng t1 t2 pid sid url s))"
  "maxBrowsers (browserPool (snd (createPage_w cfg eng t1 t2 pid sid url s)))
     = maxBrowsers (browserPool (snd (createPage cfg eng t1 t2 pid sid url s)))"
  by (cases "createPage cfg eng t1 t2 pid sid url s"; simp add: createPage_w_def split: sum.splits)+

lemma closePage_present:
  assumes "map_of (sessions s) sid = Some x"
  shows "closePage eng t1 t2 sid pid s =
     (case map_of (pages x) pid of
        None \<Rightarrow>
          (Inr False, set_sessions (AList.update sid (x\<lparr>lastActivity := t1\<rparr>) (sessions s)) s)
      | Some pg \<Rightarrow>
          (case page_close eng pg of
             None \<Rightarrow>
               (Inr True,
                set_sessions
                  (AList.update sid
                     (x\<lparr>pages := AList.delete pid (pages x), lastActivity := t2\<rparr>) (sessions s))
                  (called [PageClose pg] s))
           | Some err \<Rightarrow>
               (Inr False,
                called [PageClose pg]
                  (set_sessions (AList.update sid (x\<lparr>lastActivity := t1\<rparr>) (sessions s)) s))))"
proof (cases "map_of (pages x) pid")
  case None
  then show ?thesis
    by (simp add: closePage_def getSession_present [OF assms] session_getPage_def)
next
  case (Some pg)
  then have "pid \<in> fst ` set (pages x)"
    by (metis domI dom_map_of_conv_image_fst)
  with Some show ?thesis
    by (simp add: closePage_def getSession_present [OF assms] session_getPage_def removePage_def
          Let_def set_sessions_called split: option.splits)
qed

lemma closePage_absent:
  "map_of (sessions s) sid = None \<Longrightarrow> closePage eng t1 t2 sid pid s = (Inr False, s)"
  by (simp add: closePage_def getSession_absent)

lemma closePage_shape:
  "sessions (snd (closePage eng t1 t2 sid pid s)) = sessions s \<or>
   (\<exists>x x'. map_of (sessions s) sid = Some x \<and> lastActivity x' \<in> set [t1, t2] \<and>
           sessions (snd (closePage eng t1 t2 sid pid s)) = AList.update sid x' (sessions s))"
proof (cases "map_of (sessions s) sid")
  case None
  then show ?thesis by (simp add: closePage_absent)
next
  case (Some x)
  let ?a = "x\<lparr>lastActivity := t1\<rparr>"
  let ?b = "x\<lparr>pages := AList.delete pid (pages x), lastActivity := t2\<rparr>"
  have la: "lastActivity ?a \<in> set [t1, t2]" "lastActivity ?b \<in> set [t1, t2]" by simp_all
  have "sessions (snd (closePage eng t1 t2 sid pid s)) = AList.update sid ?a (sessions s) \<or>
        sessions (snd (closePage eng t1 t2 sid pid s)) = AList.update sid ?b (sessions s)"
    by (simp add: closePage_present [OF Some] split: option.splits)
  with la Some show ?thesis by blast
qed

lemma closePage_max:
  "maxBrowsers (browserPool (snd (closePage eng t1 t2 sid pid s))) = maxBrowsers (browserPool s)"
  by (cases "map_of (sessions s) sid")
     (auto simp add: closePage_present closePage_absent split: option.splits)

lemma closePage_w_snd:
  "sessions (snd (closePage_w eng t1 t2 sid pid s)) = sessions (snd (closePage eng t1 t2 sid pid s))"
  "maxBrowsers (browserPool (snd (closePage_w eng t1 t2 sid pid s)))
     = maxBrowsers (browserPool (snd (closePage eng t1 t2 sid pid s)))"
  by (cases "closePage eng t1 t2 sid pid s"; simp add: closePage_w_def split: sum.splits)+

text \<open>An operation that at most rewrites the entry of one present key.\<close>

lemma touched_keys:
  assumes "ss' = ss \<or> (\<exists>x x'. map_of ss sid = Some x \<and> lastActivity x' \<in> set ts \<and>
                              ss' = AList.update sid x' ss)"
  shows "map fst ss' = map fst ss"
  using assms by (auto simp add: update_keys_present)

lemma touched_session:
  assumes "ss' = ss \<or> (\<exists>x x'. map_of ss sid = Some x \<and> lastActivity x' \<in> set ts \<and>
                              ss' = AList.update sid x' ss)"
    and "map_of ss' k = Some y"
  shows "map_of ss k = Some y \<or> lastActivity y \<in> set ts"
  using assms by (auto simp add: update_conv' split: if_splits)

lemma map_of_filter_keys:
  "map_of (filter (\<lambda>(k, x). P k) al) k = Some y \<Longrightarrow> map_of al k = Some y"
proof (induction al)
  case Nil
  then show ?case by simp
next
  case (Cons a al)
  obtain k' x' where a: "a = (k', x')" by (cases a)
  have none: "\<not> P k \<Longrightarrow> map_of (filter (\<lambda>(k, x). P k) al) k = None"
    by (auto simp add: map_of_eq_None_iff)
  from Cons a none show ?case by (auto split: if_splits)
qed

lemma step_max: "maxBrowsers (browserPool (step cfg x s)) = maxBrowsers (browserPool s)"
proof (cases x)
  case (Sweep eng now)
  then show ?thesis by (simp add: cleanupExpiredSessions_def closeEach_pool_consts)
qed (simp_all add: createSession_w_snd createSession_max getSession_max closeSession_w_pool_consts
       createPage_w_snd createPage_max getPage_snd closePage_w_snd closePage_max
       onDisconnected_def)

lemma step_keys:
  "(\<exists>P. map fst (sessions (step cfg x s)) = filter P (map fst (sessions s))) \<or>
   (\<exists>sid. map fst (sessions (step cfg x s)) = map fst (sessions s) @ [sid] \<and>
          sid \<notin> set (map fst (sessions s)) \<and>
          int (length (sessions s)) < maxBrowsers (browserPool s))"
proof -
  have same: "map fst ss' = map fst ss \<Longrightarrow> \<exists>P. map fst ss' = filter P (map fst ss)"
    for ss' ss :: "(string \<times> BrowserSession) list"
    by (rule exI [of _ "\<lambda>_. True"]) simp
  show ?thesis
  proof (cases x)
    case (CreateSession eng now sid userId md)
    from createSession_shape [of eng now sid userId md s] show ?thesis
    proof
      assume "sessions (snd (createSession eng now sid userId md s)) = sessions s"
      with CreateSession show ?thesis by (simp add: createSession_w_snd same)
    next
      assume a: "int (length (sessions s)) < maxBrowsers (browserPool s) \<and>
        (\<exists>x. lastActivity x = now \<and>
           sessions (snd (createSession eng now sid userId md s)) = AList.update sid x (sessions s))"
      then obtain y where y: "sessions (snd (createSession eng now sid userId md s))
                                = AList.update sid y (sessions s)" by blast
      show ?thesis
      proof (cases "sid \<in> set (map fst (sessions s))")
        case True
        with y CreateSession show ?thesis by (simp add: createSession_w_snd update_keys same)
      next
        case False
        with y a CreateSession show ?thesis by (simp add: createSession_w_snd update_keys)
      qed
    qed
  next
    case (GetSession now sid)
    with touched_keys [OF getSession_shape [of now sid s]] show ?thesis by (simp add: same)
  next
    case (CloseSession eng sid)
    have "map fst (AList.delete sid (sessions s)) = filter (\<lambda>k. k \<noteq> sid) (map fst (sessions s))"
      by (simp add: delete_keys removeAll_filter_not_eq) (metis)
    with CloseSession show ?thesis by (auto simp add: closeSession_w_sessions)
  next
    case (CreatePage eng t1 t2 pid sid url)
    with touched_keys [OF createPage_shape [of cfg eng t1 t2 pid sid url s]] show ?thesis
      by (simp add: createPage_w_snd same)
  next
    case (GetPage now sid pid)
    with touched_keys [OF getSession_shape [of now sid s]] show ?thesis
      by (simp add: getPage_snd same)
  next
    case (ClosePage eng t1 t2 sid pid)
    with touched_keys [OF closePage_shape [of eng t1 t2 sid pid s]] show ?thesis
      by (simp add: closePage_w_snd same)
  next
    case (Sweep eng now)
    have "map fst (filter (\<lambda>(k, x). k \<notin> set ks) al) = filter (\<lambda>k. k \<notin> set ks) (map fst al)"
      for ks and al :: "(string \<times> BrowserSession) list"
      by (induction al) auto
    with Sweep show ?thesis
      by (auto simp add: cleanupExpiredSessions_def closeEach_sessions)
  next
    case (Disconnected b)
    then show ?thesis by (simp add: onDisconnected_def same)
  qed
qed

lemma step_session:
  assumes "map_of (sessions (step cfg x s)) k = Some y"
  shows "map_of (sessions s) k = Some y \<or> lastActivity y \<in> set (times_of x)"
proof (cases x)
  case (CreateSession eng now sid userId md)
  from createSession_shape [of eng now sid userId md s] assms CreateSession show ?thesis
    by (auto simp add: createSession_w_snd update_conv' split: if_splits)
next
  case (GetSession now sid)
  with touched_session [OF getSession_shape [of now sid s], of k y] assms show ?thesis by simp
next
  case (CloseSession eng sid)
  with assms show ?thesis
    by (simp add: closeSession_w_sessions delete_conv' split: if_splits)
next
  case (CreatePage eng t1 t2 pid sid url)
  with touched_session [OF createPage_shape [of cfg eng t1 t2 pid sid url s], of k y] assms
  show ?thesis by (simp add: createPage_w_snd)
next
  case (GetPage now sid pid)
  with touched_session [OF getSession_shape [of now sid s], of k y] assms show ?thesis
    by (simp add: getPage_snd)
next
  case (ClosePage eng t1 t2 sid pid)
  with touched_session [OF closePage_shape [of eng t1 t2 sid pid s], of k y] assms
  show ?thesis by (simp add: closePage_w_snd)
next
  case (Sweep eng now)
  with assms show ?thesis
    by (auto simp add: cleanupExpiredSessions_def closeEach_sessions dest: map_of_filter_keys)
next
  case (Disconnected b)
  with assms show ?thesis by (simp add: onDisconnected_def)
qed

section \<open>Capacity\<close>

lemma step_invariant:
  assumes "distinct (map fst (sessions s))"
    and "int (length (sessions s)) \<le> maxBrowsers (browserPool s)"
  shows "distinct (map fst (sessions (step cfg x s))) \<and>
         int (length (sessions (step cfg x s))) \<le> maxBrowsers (browserPool (step cfg x s))"
proof -
  have len: "length (sessions t) = length (map fst (sessions t))" for t by simp
  from step_keys [of cfg x s] show ?thesis
  proof
    assume "\<exists>P. map fst (sessions (step cfg x s)) = filter P (map fst (sessions s))"
    then obtain P where P: "map fst (sessions (step cfg x s)) = filter P (map fst (sessions s))" ..
    have "length (filter P (map fst (sessions s))) \<le> length (sessions s)"
      by (metis length_filter_le length_map)
    with assms(2)
    have "int (length (filter P (map fst (sessions s)))) \<le> maxBrowsers (browserPool s)"
      by linarith
    moreover from assms(1) have "distinct (filter P (map fst (sessions s)))"
      by (rule distinct_filter)
    ultimately show ?thesis
      unfolding step_max len [of "step cfg x s"] P by blast
  next
    assume "\<exists>sid. map fst (sessions (step cfg x s)) = map fst (sessions s) @ [sid] \<and>
          sid \<notin> set (map fst (sessions s)) \<and>
          int (length (sessions s)) < maxBrowsers (browserPool s)"
    then obtain sid where sid: "map fst (sessions (step cfg x s)) = map fst (sessions s) @ [sid]"
      "sid \<notin> set (map fst (sessions s))" "int (length (sessions s)) < maxBrowsers (browserPool s)"
      by blast
    with assms show ?thesis
      unfolding step_max len [of "step cfg x s"] sid(1) by simp
  qed
qed

lemma run_max: "maxBrowsers (browserPool (run cfg xs s)) = maxBrowsers (browserPool s)"
  by (induction xs arbitrary: s) (simp_all add: step_max)

lemma run_invariant:
  "distinct (map fst (sessions s)) \<Longrightarrow> int (length (sessions s)) \<le> maxBrowsers (browserPool s) \<Longrightarrow>
   distinct (map fst (sessions (run cfg xs s))) \<and>
   int (length (sessions (run cfg xs s))) \<le> maxBrowsers (browserPool (run cfg xs s))"
proof (induction xs arbitrary: s)
  case Nil
  then show ?case by simp
next
  case (Cons x xs)
  from step_invariant [OF Cons.prems, of cfg x] show ?case
    by (simp add: Cons.IH)
qed

lemma run_distinct: "distinct (map fst (sessions (run cfg xs (service_new cfg))))"
proof -
  have "sessions (service_new cfg) = []"
    by (simp add: service_new_def BrowserPool_new_def sessions_def)
  moreover have "length (filter P (map fst (sessions t))) \<le> length (sessions t)" for P t
    by (metis length_filter_le length_map)
  ultimately show ?thesis
  proof (induction xs rule: rev_induct)
    case Nil
    then show ?case by simp
  next
    case (snoc x xs)
    have app: "run cfg (xs @ [x]) t = step cfg x (run cfg xs t)" for t
      by (induction xs arbitrary: t) simp_all
    from step_keys [of cfg x "run cfg xs (service_new cfg)"] snoc show ?case
      unfolding app by auto
  qed
qed

text \<open>
  Calls that do not overlap keep the bound: with a non-negative \<^verbatim>\<open>MAX_BROWSERS\<close>, after
  every sequence of operations run one after another from the fresh pool, the number of
  active sessions is at most \<^verbatim>\<open>maxBrowsers\<close>.
\<close>

lemma run_capacity:
  assumes "0 \<le> MAX_BROWSERS cfg"
  shows "int (length (sessions (run cfg xs (service_new cfg))))
           \<le> maxBrowsers (browserPool (run cfg xs (service_new cfg))) \<and>
         maxBrowsers (browserPool (run cfg xs (service_new cfg))) = MAX_BROWSERS cfg \<and>
         distinct (map fst (sessions (run cfg xs (service_new cfg))))"
proof -
  have init: "sessions (service_new cfg) = []"
    "maxBrowsers (browserPool (service_new cfg)) = MAX_BROWSERS cfg"
    by (simp_all add: service_new_def BrowserPool_new_def sessions_def)
  from assms init
  have "distinct (map fst (sessions (service_new cfg)))"
    "int (length (sessions (service_new cfg))) \<le> maxBrowsers (browserPool (service_new cfg))"
    by simp_all
  from run_invariant [OF this, of cfg xs] show ?thesis
    by (simp add: run_max init)
qed

text \<open>
  The scenario create \<open>A\<close>, create \<open>B\<close>, create \<open>C\<close> (refused), close \<open>A\<close>, create
  \<open>C\<close> with \<^verbatim>\<open>maxBrowsers = 2\<close>.
\<close>

lemma run_capacity_scenario:
  "map fst (sessions (run ex_cfg (take 3 ex_ops_capacity) (service_new ex_cfg))) = [''A'', ''B''] \<and>
   map fst (sessions (run ex_cfg ex_ops_capacity (service_new ex_cfg))) = [''B'', ''C'']"
proof -
  have two: "run ex_cfg (take 2 ex_ops_capacity) (service_new ex_cfg) =
      \<lparr>browserPool =
         \<lparr>maxBrowsers = 2, browserTimeout = 30, browsers = [1],
          activeSessions =
            [(''A'', \<lparr>sessionId = ''A'', browserContext = 10, createdAt = 1000,
                     lastActivity = 1000, pages = [], metadata = []\<rparr>),
             (''B'', \<lparr>sessionId = ''B'', browserContext = 11, createdAt = 2000,
                     lastActivity = 2000, pages = [], metadata = []\<rparr>)]\<rparr>,
       engineCalls = [Launch, NewContext 1, NewContext 1],
       wsBroadcasts = [(''session.created'', SessionCreatedP ''A'' []),
                       (''session.created'', SessionCreatedP ''B'' [])]\<rparr>"
    by (simp add: ex_ops_capacity_def ex_cfg_def service_new_def BrowserPool_new_def
          ex_engine_defs pool_op_defs)
  have three: "run ex_cfg (take 3 ex_ops_capacity) (service_new ex_cfg)
                 = run ex_cfg (take 2 ex_ops_capacity) (service_new ex_cfg)"
    unfolding two
    by (simp add: ex_ops_capacity_def ex_cfg_def service_new_def BrowserPool_new_def
          ex_engine_defs pool_op_defs)
  have k3: "map fst (sessions (run ex_cfg (take 3 ex_ops_capacity) (service_new ex_cfg)))
              = [''A'', ''B'']"
    unfolding three two by (simp add: sessions_def)
  have all: "run ex_cfg ex_ops_capacity (service_new ex_cfg) =
               run ex_cfg (drop 3 ex_ops_capacity)
                 (run ex_cfg (take 3 ex_ops_capacity) (service_new ex_cfg))"
    by (simp add: ex_ops_capacity_def)
  have k5: "map fst (sessions (run ex_cfg ex_ops_capacity (service_new ex_cfg))) = [''B'', ''C'']"
    unfolding all three two
    by (simp add: ex_ops_capacity_def ex_engine_defs pool_op_defs closeSession_w_def
          closeSession_def session_close_def session_close_body_def)
  from k3 k5 show ?thesis by simp
qed

section \<open>Overlapping createSession calls\<close>

text \<open>
  A call that is resumed as soon as each of its engine calls settles, with no other call
  in between, is \<open>createSession\<close>.
\<close>

lemma createSession_segments:
  "createSession eng now sid userId md s =
     (case createSession_begin s of
        (Inl err, s1) \<Rightarrow> (Inl err, s1)
      | (Inr AwaitLaunch, s1) \<Rightarrow>
          (case createSession_launched eng s1 of
             (Inl err, s2) \<Rightarrow> (Inl err, s2)
           | (Inr b, s2) \<Rightarrow> createSession_register eng now sid userId md b s2)
      | (Inr (AwaitNewContext b), s1) \<Rightarrow> createSession_register eng now sid userId md b s1)"
  by (simp add: createSession_def createSession_begin_def createSession_launched_def
        createSession_register_def createSession_pick_def launchBrowser_def Let_def
        called_def set_browsers_def set_sessions_def sessions_def
        split: sum.splits list.splits)

lemma ex_three_begun_eq:
  "ex_three_begun =
     \<lparr>browserPool = \<lparr>maxBrowsers = 2, browserTimeout = 30, browsers = [1, 2], activeSessions = []\<rparr>,
      engineCalls = [Launch, Launch, NewContext 1, NewContext 1, NewContext 1],
      wsBroadcasts = []\<rparr>"
  by (simp add: ex_three_begun_def ex_started_eq createSession_begin_def createSession_pick_def
        sessions_def called_def)

text \<open>
  Claim C1. \<open>createSession\<close> tests the capacity before it awaits \<^verbatim>\<open>newContext\<close> and
  stores the session after, and nothing keeps a second call from running its test in
  between. With \<^verbatim>\<open>maxBrowsers = 2\<close> and no active session, three calls that each make
  the test before any of them is resumed all pass it (the table is still empty after the
  third), and when the three are resumed each stores its session: three active sessions
  against a maximum of two. The bound of the claim does not hold of the code.
\<close>

theorem createSession_overlap_exceeds_capacity:
  "maxBrowsers (browserPool ex_started) = 2 \<and> sessions ex_started = [] \<and>
   fst (createSession_begin ex_started) = Inr (AwaitNewContext 1) \<and>
   fst (createSession_begin (snd (createSession_begin ex_started))) = Inr (AwaitNewContext 1) \<and>
   fst (createSession_begin (snd (createSession_begin (snd (createSession_begin ex_started)))))
     = Inr (AwaitNewContext 1) \<and>
   sessions ex_three_begun = [] \<and>
   map fst (sessions ex_three_registered) = [''A'', ''B'', ''C''] \<and>
   maxBrowsers (browserPool ex_three_registered) = 2 \<and>
   int (length (sessions ex_three_registered)) = 3 \<and>
   maxBrowsers (browserPool ex_three_registered) < int (length (sessions ex_three_registered))"
proof -
  have b: "fst (createSession_begin ex_started) = Inr (AwaitNewContext 1)"
    "fst (createSession_begin (snd (createSession_begin ex_started))) = Inr (AwaitNewContext 1)"
    "fst (createSession_begin (snd (createSession_begin (snd (createSession_begin ex_started)))))
       = Inr (AwaitNewContext 1)"
    by (simp_all add: ex_started_eq createSession_begin_def createSession_pick_def sessions_def
          called_def)
  have r: "ex_three_registered =
     \<lparr>browserPool =
        \<lparr>maxBrowsers = 2, browserTimeout = 30, browsers = [1, 2],
         activeSessions =
           [(''A'', \<lparr>sessionId = ''A'', browserContext = 10, createdAt = 1001,
                    lastActivity = 1001, pages = [], metadata = []\<rparr>),
            (''B'', \<lparr>sessionId = ''B'', browserContext = 11, createdAt = 1002,
                    lastActivity = 1002, pages = [], metadata = []\<rparr>),
            (''C'', \<lparr>sessionId = ''C'', browserContext = 12, createdAt = 1003,
                    lastActivity = 1003, pages = [], metadata = []\<rparr>)]\<rparr>,
      engineCalls = [Launch, Launch, NewContext 1, NewContext 1, NewContext 1],
      wsBroadcasts = []\<rparr>"
    by (simp add: ex_three_registered_def ex_three_begun_eq createSession_register_def
          engine_ok_def BrowserSession_new_def session_metadata_def set_sessions_def
          sessions_def Let_def)
  show ?thesis
    by (simp add: b) (simp add: r ex_three_begun_eq ex_started_eq sessions_def)
qed

section \<open>Activity times\<close>

lemma run_append: "run cfg (xs @ ys) s = run cfg ys (run cfg xs s)"
  by (induction xs arbitrary: s) simp_all

lemma run_session:
  "map_of (sessions (run cfg xs s)) k = Some y \<Longrightarrow>
   map_of (sessions s) k = Some y \<or> lastActivity y \<in> set (concat (map times_of xs))"
proof (induction xs arbitrary: s)
  case Nil
  then show ?case by simp
next
  case (Cons x xs)
  from Cons.IH [of "step cfg x s"] Cons.prems
  have "map_of (sessions (step cfg x s)) k = Some y \<or>
        lastActivity y \<in> set (concat (map times_of xs))"
    by simp
  then show ?case
  proof
    assume "map_of (sessions (step cfg x s)) k = Some y"
    from step_session [OF this] show ?thesis by auto
  next
    assume "lastActivity y \<in> set (concat (map times_of xs))"
    then show ?thesis by simp
  qed
qed

lemma step_monotone:
  assumes "map_of (sessions s) k = Some a"
    and "map_of (sessions (step cfg x s)) k = Some b"
    and "\<forall>t \<in> set (times_of x). lastActivity a \<le> t"
  shows "lastActivity a \<le> lastActivity b"
  using step_session [OF assms(2)] assms(1,3) by auto

lemma run_monotone:
  assumes "sorted (concat (map times_of (xs @ ys)))"
    and "map_of (sessions (run cfg xs (service_new cfg))) k = Some a"
    and "map_of (sessions (run cfg (xs @ ys) (service_new cfg))) k = Some b"
  shows "lastActivity a \<le> lastActivity b"
proof -
  have "map_of (sessions (service_new cfg)) k = None"
    by (simp add: service_new_def BrowserPool_new_def sessions_def)
  with run_session [OF assms(2)] have a: "lastActivity a \<in> set (concat (map times_of xs))"
    by simp
  from assms(3) have "map_of (sessions (run cfg ys (run cfg xs (service_new cfg)))) k = Some b"
    by (simp add: run_append)
  from run_session [OF this] assms(2)
  have "b = a \<or> lastActivity b \<in> set (concat (map times_of ys))" by auto
  then show ?thesis
  proof
    assume "b = a" then show ?thesis by simp
  next
    assume "lastActivity b \<in> set (concat (map times_of ys))"
    with a assms(1) show ?thesis by (fastforce simp add: sorted_append)
  qed
qed

lemma lastActivity_after_update:
  "map_option lastActivity (map_of (AList.update sid x' ss) sid) = Some (lastActivity x')"
  by (simp add: update_conv')

text \<open>
  Claim C8, as the code has it. Every write to \<open>lastActivity\<close> stores the clock
  reading of the operation that makes it, with no comparison against the stored value.
  (1) Along every operation sequence from the fresh pool whose clock readings
  never go backwards, a session id's \<open>lastActivity\<close> at a later point is at least its
  \<open>lastActivity\<close> at an earlier point. (2) In any state, one operation whose clock
  readings are not before a session's \<open>lastActivity\<close> does not decrease it. (3) On a
  session that is in the table, \<open>getSession\<close> and \<open>getPage\<close> set \<open>lastActivity\<close> to
  the clock they read, \<open>createPage\<close> to the clock of \<^verbatim>\<open>addPage\<close> (of \<^verbatim>\<open>getSession\<close>
  when no page could be opened), \<open>closePage\<close> to the clock of \<^verbatim>\<open>removePage\<close> (of
  \<^verbatim>\<open>getSession\<close> when the page is unknown or its close failed). (4) \<open>addPage\<close> sets
  it to the clock, and so does \<open>removePage\<close> when it removes a page.
\<close>

theorem lastActivity_monotone_and_refreshed:
  "(sorted (concat (map times_of (xs @ ys))) \<and>
    map_of (sessions (run cfg xs (service_new cfg))) sid = Some a \<and>
    map_of (sessions (run cfg (xs @ ys) (service_new cfg))) sid = Some b
      \<longrightarrow> lastActivity a \<le> lastActivity b) \<and>
   (map_of (sessions s) sid = Some x \<and> map_of (sessions (step cfg op1 s)) sid = Some x1 \<and>
    (\<forall>t \<in> set (times_of op1). lastActivity x \<le> t)
      \<longrightarrow> lastActivity x \<le> lastActivity x1) \<and>
   (map_of (sessions s) sid = Some x \<longrightarrow>
      map_option lastActivity (map_of (sessions (snd (getSession now sid s))) sid) = Some now \<and>
      map_option lastActivity (map_of (sessions (snd (getPage now sid pid s))) sid) = Some now \<and>
      map_option lastActivity
        (map_of (sessions (snd (createPage cfg eng t1 t2 pid sid url s))) sid)
        = Some (case newPage eng (browserContext x) of Inl err \<Rightarrow> t1 | Inr pg \<Rightarrow> t2) \<and>
      map_option lastActivity (map_of (sessions (snd (closePage eng t1 t2 sid pid s))) sid)
        = Some (case map_of (pages x) pid of
                  None \<Rightarrow> t1
                | Some pg \<Rightarrow> (case page_close eng pg of None \<Rightarrow> t2 | Some err \<Rightarrow> t1))) \<and>
   lastActivity (snd (addPage pid now pg x)) = now \<and>
   (pid \<in> fst ` set (pages x) \<longrightarrow> lastActivity (snd (removePage pid now x)) = now)"
proof (intro conjI impI)
  assume "sorted (concat (map times_of (xs @ ys))) \<and>
    map_of (sessions (run cfg xs (service_new cfg))) sid = Some a \<and>
    map_of (sessions (run cfg (xs @ ys) (service_new cfg))) sid = Some b"
  then show "lastActivity a \<le> lastActivity b"
    using run_monotone by blast
next
  assume "map_of (sessions s) sid = Some x \<and> map_of (sessions (step cfg op1 s)) sid = Some x1 \<and>
    (\<forall>t \<in> set (times_of op1). lastActivity x \<le> t)"
  then show "lastActivity x \<le> lastActivity x1"
    using step_monotone by blast
next
  assume p: "map_of (sessions s) sid = Some x"
  show "map_option lastActivity (map_of (sessions (snd (getSession now sid s))) sid) = Some now"
    by (simp add: getSession_present [OF p] update_conv')
  show "map_option lastActivity (map_of (sessions (snd (getPage now sid pid s))) sid) = Some now"
    by (simp add: getPage_snd getSession_present [OF p] update_conv')
  show "map_option lastActivity
        (map_of (sessions (snd (createPage cfg eng t1 t2 pid sid url s))) sid)
        = Some (case newPage eng (browserContext x) of Inl err \<Rightarrow> t1 | Inr pg \<Rightarrow> t2)"
  proof (cases "newPage eng (browserContext x)")
    case (Inl err)
    then show ?thesis by (simp add: createPage_newPage_fails [OF p Inl] update_conv')
  next
    case (Inr pg)
    with p show ?thesis
      by (cases "truthy url") (simp_all add: createPage_goto createPage_no_url update_conv')
  qed
  show "map_option lastActivity (map_of (sessions (snd (closePage eng t1 t2 sid pid s))) sid)
        = Some (case map_of (pages x) pid of
                  None \<Rightarrow> t1
                | Some pg \<Rightarrow> (case page_close eng pg of None \<Rightarrow> t2 | Some err \<Rightarrow> t1))"
    by (simp add: closePage_present [OF p] update_conv' split: option.splits)
next
  show "lastActivity (snd (addPage pid now pg x)) = now"
    by (simp add: addPage_def)
next
  assume "pid \<in> fst ` set (pages x)"
  then show "lastActivity (snd (removePage pid now x)) = now"
    by (simp add: removePage_def Let_def)
qed

theorem lastActivity_monotone_and_refreshed_witness:
  "sorted (concat (map times_of ([CreateSession (engine_ok 1 10 0) 1000 ''A'' None []] @
                                 [CreatePage (engine_ok 1 10 100) 2000 2001 ''P'' ''A'' None]))) \<and>
   map_option lastActivity
     (map_of (sessions (run ex_cfg [CreateSession (engine_ok 1 10 0) 1000 ''A'' None []]
                          (service_new ex_cfg))) ''A'') = Some 1000 \<and>
   map_option lastActivity
     (map_of (sessions (run ex_cfg ([CreateSession (engine_ok 1 10 0) 1000 ''A'' None []] @
                                    [CreatePage (engine_ok 1 10 100) 2000 2001 ''P'' ''A'' None])
                          (service_new ex_cfg))) ''A'') = Some 2001 \<and>
   map_of (sessions ex_A) ''A'' = Some ex_session_A \<and>
   lastActivity ex_session_A = 2001 \<and>
   times_of (GetSession 5000 ''A'') = [5000] \<and> lastActivity ex_session_A \<le> 5000 \<and>
   map_option lastActivity (map_of (sessions (step ex_cfg (GetSession 5000 ''A'') ex_A)) ''A'')
     = Some 5000 \<and>
   map_option lastActivity (map_of (sessions (snd (getPage 5000 ''A'' ''P'' ex_A))) ''A'')
     = Some 5000 \<and>
   map_option lastActivity
     (map_of (sessions (snd (createPage ex_cfg (engine_ok 1 10 101) 5000 5001 ''Q'' ''A'' None ex_A)))
        ''A'') = Some 5001 \<and>
   map_option lastActivity
     (map_of (sessions (snd (closePage (engine_ok 1 10 101) 5000 5001 ''A'' ''P'' ex_A))) ''A'')
     = Some 5001 \<and>
   ''P'' \<in> fst ` set (pages ex_session_A) \<and>
   lastActivity (snd (removePage ''P'' 5000 ex_session_A)) = 5000"
proof -
  let ?xs = "[CreateSession (engine_ok 1 10 0) 1000 ''A'' None []]"
  let ?ys = "[CreatePage (engine_ok 1 10 100) 2000 2001 ''P'' ''A'' None]"
  let ?a = "\<lparr>sessionId = ''A'', browserContext = 10, createdAt = 1000, lastActivity = 1000,
             pages = [], metadata = []\<rparr>"
  let ?b = "\<lparr>sessionId = ''A'', browserContext = 10, createdAt = 1000, lastActivity = 2001,
             pages = [(''P'', 100)], metadata = []\<rparr>"
  have srt: "sorted (concat (map times_of (?xs @ ?ys)))" by simp
  have a: "map_of (sessions (run ex_cfg ?xs (service_new ex_cfg))) ''A'' = Some ?a"
    by (simp add: ex_cfg_def service_new_def BrowserPool_new_def ex_engine_defs pool_op_defs)
  have b: "map_of (sessions (run ex_cfg (?xs @ ?ys) (service_new ex_cfg))) ''A'' = Some ?b"
    by (simp add: ex_cfg_def service_new_def BrowserPool_new_def ex_engine_defs pool_op_defs)
  have later: "\<forall>t \<in> set (times_of (GetSession 5000 ''A'')). lastActivity ex_session_A \<le> t"
    by (simp add: ex_session_A_def)
  have x1: "map_of (sessions (step ex_cfg (GetSession 5000 ''A'') ex_A)) ''A''
              = Some (ex_session_A\<lparr>lastActivity := 5000\<rparr>)"
    by (simp add: getSession_present [OF ex_A_present] update_conv')
  have pg: "''P'' \<in> fst ` set (pages ex_session_A)" "map_of (pages ex_session_A) ''P'' = Some 100"
    "newPage (engine_ok 1 10 101) (browserContext ex_session_A) = Inr 101"
    "page_close (engine_ok 1 10 101) 100 = None"
    by (simp_all add: ex_session_A_def engine_ok_def)
  from lastActivity_monotone_and_refreshed
         [of ?xs ?ys ex_cfg "''A''" ?a ?b ex_A ex_session_A "GetSession 5000 ''A''"
             "ex_session_A\<lparr>lastActivity := 5000\<rparr>" 5000 "''P''" "engine_ok 1 10 101"
             5000 5001 None 100]
       srt a b ex_A_present later x1 pg
  have "(1000::int) \<le> 2001 \<and>
        map_option lastActivity (map_of (sessions (snd (getPage 5000 ''A'' ''P'' ex_A))) ''A'')
          = Some 5000 \<and>
        map_option lastActivity
          (map_of (sessions (snd (createPage ex_cfg (engine_ok 1 10 101) 5000 5001 ''P'' ''A''
                                    None ex_A))) ''A'') = Some 5001 \<and>
        map_option lastActivity
          (map_of (sessions (snd (closePage (engine_ok 1 10 101) 5000 5001 ''A'' ''P'' ex_A))) ''A'')
          = Some 5001 \<and>
        lastActivity (snd (removePage ''P'' 5000 ex_session_A)) = 5000"
    by simp
  moreover
  from lastActivity_monotone_and_refreshed
         [of ?xs ?ys ex_cfg "''A''" ?a ?b ex_A ex_session_A "GetSession 5000 ''A''"
             "ex_session_A\<lparr>lastActivity := 5000\<rparr>" 5000 "''Q''" "engine_ok 1 10 101"
             5000 5001 None 100]
       ex_A_present pg
  have "map_option lastActivity
          (map_of (sessions (snd (createPage ex_cfg (engine_ok 1 10 101) 5000 5001 ''Q'' ''A''
                                    None ex_A))) ''A'') = Some 5001"
    by simp
  ultimately show ?thesis
    using srt a b ex_A_present later x1 pg by (simp add: ex_session_A_fields)
qed

text \<open>
  The claim as written fails: the operation sequence that creates session \<open>A\<close> at clock
  1000 and then reads it with \<open>getSession\<close> at an earlier clock reading 500 lowers its
  \<open>lastActivity\<close> from 1000 to 500, and the same \<open>getSession\<close> lowers the session of
  \<open>ex_A\<close> from 2001 to 500.
\<close>

theorem lastActivity_clock_backwards_counterexample:
  "map_option lastActivity
     (map_of (sessions (run ex_cfg [CreateSession (engine_ok 1 10 0) 1000 ''A'' None []]
                          (service_new ex_cfg))) ''A'') = Some 1000 \<and>
   map_option lastActivity
     (map_of (sessions (run ex_cfg ([CreateSession (engine_ok 1 10 0) 1000 ''A'' None []] @
                                    [GetSession 500 ''A''])
                          (service_new ex_cfg))) ''A'') = Some 500 \<and>
   map_option lastActivity (map_of (sessions ex_A) ''A'') = Some 2001 \<and>
   map_option lastActivity (map_of (sessions (snd (getSession 500 ''A'' ex_A))) ''A'') = Some 500"
proof -
  have 1: "map_option lastActivity
     (map_of (sessions (run ex_cfg [CreateSession (engine_ok 1 10 0) 1000 ''A'' None []]
                          (service_new ex_cfg))) ''A'') = Some 1000"
    by (simp add: ex_cfg_def service_new_def BrowserPool_new_def ex_engine_defs pool_op_defs)
  have 2: "map_option lastActivity
     (map_of (sessions (run ex_cfg ([CreateSession (engine_ok 1 10 0) 1000 ''A'' None []] @
                                    [GetSession 500 ''A''])
                          (service_new ex_cfg))) ''A'') = Some 500"
    by (simp add: ex_cfg_def service_new_def BrowserPool_new_def ex_engine_defs pool_op_defs)
  have 3: "map_option lastActivity (map_of (sessions ex_A) ''A'') = Some 2001"
    by (simp add: ex_A_present ex_session_A_fields)
  have 4: "map_option lastActivity (map_of (sessions (snd (getSession 500 ''A'' ex_A))) ''A'')
             = Some 500"
    by (simp add: getSession_present [OF ex_A_present] update_conv')
  from 1 2 3 4 show ?thesis by simp
qed

section \<open>The two control planes\<close>

lemma session_metadata_or_null: "session_metadata (or_null userId) md = session_metadata userId md"
  by (cases userId) (simp_all add: session_metadata_def or_null_def)

lemma createSession_or_null:
  "createSession eng now sid (or_null userId) md s = createSession eng now sid userId md s"
  by (simp only: createSession_def session_metadata_or_null)

lemma createSession_w_or_null:
  "createSession_w eng now sid (or_null userId) md s = createSession_w eng now sid userId md s"
  by (simp add: createSession_w_def createSession_or_null)

lemma planes_create_session:
  "browserPool (snd (handleBrowserAction cfg eng t1 t2 t3 uuid clientId
                       (ws_message (ACreateSession userId md)) s))
     = browserPool (snd (acquire eng t1 uuid userId md s)) \<and>
   wsBroadcasts (snd (handleBrowserAction cfg eng t1 t2 t3 uuid clientId
                        (ws_message (ACreateSession userId md)) s))
     = wsBroadcasts (snd (acquire eng t1 uuid userId md s)) @
       (if ws_ok (fst (handleBrowserAction cfg eng t1 t2 t3 uuid clientId
                         (ws_message (ACreateSession userId md)) s))
        then [(''browser.create-session'',
               BrowserActionP clientId None None ''create-session'' t3)]
        else [])"
  by (cases "createSession_w eng t1 uuid userId md s")
     (simp add: handleBrowserAction_def browserAction_def acquire_def createSession_w_or_null
        split: sum.splits)

lemma planes_create_page:
  "browserPool (snd (handleBrowserAction cfg eng t1 t2 t3 uuid clientId
                       (ws_message (ACreatePage sid url)) s))
     = browserPool (snd (grpc_createPage cfg eng t1 t2 uuid sid url s)) \<and>
   wsBroadcasts (snd (handleBrowserAction cfg eng t1 t2 t3 uuid clientId
                        (ws_message (ACreatePage sid url)) s))
     = wsBroadcasts (snd (grpc_createPage cfg eng t1 t2 uuid sid url s)) @
       (if ws_ok (fst (handleBrowserAction cfg eng t1 t2 t3 uuid clientId
                         (ws_message (ACreatePage sid url)) s))
        then [(''browser.create-page'',
               BrowserActionP clientId (Some sid) None ''create-page'' t3)]
        else [])"
  by (cases "createPage_w cfg eng t1 t2 uuid sid url s")
     (simp add: handleBrowserAction_def browserAction_def grpc_createPage_def ws_createPage_def
        split: sum.splits)

lemma planes_navigate:
  "browserPool (snd (handleBrowserAction cfg eng t1 t2 t3 uuid clientId
                       (ws_message (ANavigate sid pid url)) s))
     = browserPool (snd (navigatePage cfg eng t1 sid pid url 0 s)) \<and>
   wsBroadcasts (snd (handleBrowserAction cfg eng t1 t2 t3 uuid clientId
                        (ws_message (ANavigate sid pid url)) s))
     = wsBroadcasts (snd (navigatePage cfg eng t1 sid pid url 0 s)) @
       (if ws_ok (fst (handleBrowserAction cfg eng t1 t2 t3 uuid clientId
                         (ws_message (ANavigate sid pid url)) s))
        then [(''browser.navigate'',
               BrowserActionP clientId (Some sid) (Some pid) ''navigate'' t3)]
        else [])"
  by (cases "getPage t1 sid pid s")
     (simp add: handleBrowserAction_def browserAction_def navigatePage_def ws_getPage_def Let_def
        split: sum.splits option.splits)

lemma planes_click:
  "browserPool (snd (handleBrowserAction cfg eng t1 t2 t3 uuid clientId
                       (ws_message (AClick sid pid selector)) s))
     = browserPool (snd (grpc_click eng t1 sid pid selector 0 s)) \<and>
   wsBroadcasts (snd (handleBrowserAction cfg eng t1 t2 t3 uuid clientId
                        (ws_message (AClick sid pid selector)) s))
     = wsBroadcasts (snd (grpc_click eng t1 sid pid selector 0 s)) @
       (if ws_ok (fst (handleBrowserAction cfg eng t1 t2 t3 uuid clientId
                         (ws_message (AClick sid pid selector)) s))
        then [(''browser.click'', BrowserActionP clientId (Some sid) (Some pid) ''click'' t3)]
        else [])"
  by (cases "getPage t1 sid pid s")
     (simp add: handleBrowserAction_def browserAction_def grpc_click_def ws_getPage_def Let_def
        split: sum.splits option.splits)

lemma planes_type:
  "browserPool (snd (handleBrowserAction cfg eng t1 t2 t3 uuid clientId
                       (ws_message (AType sid pid selector txt)) s))
     = browserPool (snd (grpc_type eng t1 sid pid selector txt 0 s)) \<and>
   wsBroadcasts (snd (handleBrowserAction cfg eng t1 t2 t3 uuid clientId
                        (ws_message (AType sid pid selector txt)) s))
     = wsBroadcasts (snd (grpc_type eng t1 sid pid selector txt 0 s)) @
       (if ws_ok (fst (handleBrowserAction cfg eng t1 t2 t3 uuid clientId
                         (ws_message (AType sid pid selector txt)) s))
        then [(''browser.type'', BrowserActionP clientId (Some sid) (Some pid) ''type'' t3)]
        else [])"
  by (cases "getPage t1 sid pid s")
     (simp add: handleBrowserAction_def browserAction_def grpc_type_def ws_getPage_def Let_def
        split: sum.splits option.splits)

text \<open>
  Claim C5, as the code has it. For each of the five verbs, the action issued on the
  event plane leaves the pool manager (engine list, session table with its pages and
  activity times, capacity bound) in the same state as the same action issued on the
  synchronous plane, and broadcasts what the synchronous plane broadcasts
  (\<^verbatim>\<open>session.created\<close>, \<^verbatim>\<open>page.created\<close>) followed, when the event-plane action
  succeeds, by one more broadcast on topic \<^verbatim>\<open>browser.<action>\<close>.
\<close>

theorem planes_same_pool_state_extra_broadcast:
  "browserPool (snd (handleBrowserAction cfg eng t1 t2 t3 uuid clientId (ws_message a) s))
     = browserPool (snd (grpc_call cfg eng t1 t2 uuid a s)) \<and>
   wsBroadcasts (snd (handleBrowserAction cfg eng t1 t2 t3 uuid clientId (ws_message a) s))
     = wsBroadcasts (snd (grpc_call cfg eng t1 t2 uuid a s)) @
       (if ws_ok (fst (handleBrowserAction cfg eng t1 t2 t3 uuid clientId (ws_message a) s))
        then [(''browser.'' @ verb a,
               BrowserActionP clientId (p_sessionId (ws_message a)) (p_pageId (ws_message a))
                 (verb a) t3)]
        else [])"
proof (cases a)
  case (ACreateSession userId md)
  with planes_create_session [of cfg eng t1 t2 t3 uuid clientId userId md s] show ?thesis
    by simp
next
  case (ACreatePage sid url)
  with planes_create_page [of cfg eng t1 t2 t3 uuid clientId sid url s] show ?thesis
    by simp
next
  case (ANavigate sid pid url)
  with planes_navigate [of cfg eng t1 t2 t3 uuid clientId sid pid url s] show ?thesis
    by simp
next
  case (AClick sid pid selector)
  with planes_click [of cfg eng t1 t2 t3 uuid clientId sid pid selector s] show ?thesis
    by simp
next
  case (AType sid pid selector tx)
  with planes_type [of cfg eng t1 t2 t3 uuid clientId sid pid selector tx s] show ?thesis
    by simp
qed

theorem planes_same_pool_state_extra_broadcast_witness:
  "browserPool (snd (handleBrowserAction ex_cfg (engine_ok 1 0 0) 5000 5001 5002 ''u'' ''client_1''
                       (ws_message (ANavigate ''A'' ''P'' (Some ''http://a.test''))) ex_A))
     = browserPool (snd (grpc_call ex_cfg (engine_ok 1 0 0) 5000 5001 ''u''
                           (ANavigate ''A'' ''P'' (Some ''http://a.test'')) ex_A)) \<and>
   ws_ok (fst (handleBrowserAction ex_cfg (engine_ok 1 0 0) 5000 5001 5002 ''u'' ''client_1''
                 (ws_message (ANavigate ''A'' ''P'' (Some ''http://a.test''))) ex_A)) \<and>
   wsBroadcasts (snd (grpc_call ex_cfg (engine_ok 1 0 0) 5000 5001 ''u''
                        (ANavigate ''A'' ''P'' (Some ''http://a.test'')) ex_A))
     = wsBroadcasts ex_A \<and>
   wsBroadcasts (snd (handleBrowserAction ex_cfg (engine_ok 1 0 0) 5000 5001 5002 ''u'' ''client_1''
                        (ws_message (ANavigate ''A'' ''P'' (Some ''http://a.test''))) ex_A))
     = wsBroadcasts ex_A @
       [(''browser.navigate'', BrowserActionP ''client_1'' (Some ''A'') (Some ''P'') ''navigate'' 5002)]"
proof -
  have gp: "getPage 5000 ''A'' ''P'' ex_A =
              (Some 100,
               set_sessions (AList.update ''A'' (ex_session_A\<lparr>lastActivity := 5000\<rparr>) (sessions ex_A))
                 ex_A)"
    by (simp add: getPage_def getSession_present [OF ex_A_present] session_getPage_def
          ex_session_A_def)
  have ok: "ws_ok (fst (handleBrowserAction ex_cfg (engine_ok 1 0 0) 5000 5001 5002 ''u'' ''client_1''
                 (ws_message (ANavigate ''A'' ''P'' (Some ''http://a.test''))) ex_A))"
    by (simp add: handleBrowserAction_def browserAction_def ws_getPage_def gp engine_ok_def)
  have g: "wsBroadcasts (snd (grpc_call ex_cfg (engine_ok 1 0 0) 5000 5001 ''u''
                        (ANavigate ''A'' ''P'' (Some ''http://a.test'')) ex_A)) = wsBroadcasts ex_A"
    by (simp add: navigatePage_def gp engine_ok_def Let_def)
  from planes_same_pool_state_extra_broadcast
         [of ex_cfg "engine_ok 1 0 0" 5000 5001 5002 "''u''" "''client_1''"
             "ANavigate ''A'' ''P'' (Some ''http://a.test'')" ex_A]
       ok g
  show ?thesis by simp
qed

text \<open>
  The claim as written fails: for \<^verbatim>\<open>create-session\<close> the synchronous plane broadcasts
  \<^verbatim>\<open>session.created\<close> only, the event plane broadcasts \<^verbatim>\<open>session.created\<close> and then
  \<^verbatim>\<open>browser.create-session\<close>.
\<close>

theorem planes_broadcasts_differ_counterexample:
  "wsBroadcasts (snd (grpc_call ex_cfg (engine_ok 1 11 0) 5000 5001 ''B''
                        (ACreateSession (Some ''bob'') []) ex_A))
     = wsBroadcasts ex_A @ [(''session.created'', SessionCreatedP ''B'' [])] \<and>
   wsBroadcasts (snd (handleBrowserAction ex_cfg (engine_ok 1 11 0) 5000 5001 5002 ''B'' ''client_1''
                        (ws_message (ACreateSession (Some ''bob'') [])) ex_A))
     = wsBroadcasts ex_A @
       [(''session.created'', SessionCreatedP ''B'' []),
        (''browser.create-session'',
         BrowserActionP ''client_1'' None None ''create-session'' 5002)] \<and>
   wsBroadcasts (snd (handleBrowserAction ex_cfg (engine_ok 1 11 0) 5000 5001 5002 ''B'' ''client_1''
                        (ws_message (ACreateSession (Some ''bob'') [])) ex_A))
     \<noteq> wsBroadcasts (snd (grpc_call ex_cfg (engine_ok 1 11 0) 5000 5001 ''B''
                            (ACreateSession (Some ''bob'') []) ex_A))"
proof -
  have lt: "int (length (sessions ex_A)) < maxBrowsers (browserPool ex_A)"
    "browsers (browserPool ex_A) = 1 # [2]" "newContext (engine_ok 1 11 0) 1 = Inr 11"
    by (simp_all add: ex_A_eq sessions_def engine_ok_def)
  note cs = createSession_ok [OF lt]
  have g: "wsBroadcasts (snd (grpc_call ex_cfg (engine_ok 1 11 0) 5000 5001 ''B''
                        (ACreateSession (Some ''bob'') []) ex_A))
     = wsBroadcasts ex_A @ [(''session.created'', SessionCreatedP ''B'' [])]"
    by (simp add: acquire_def createSession_w_or_null createSession_w_def cs del: One_nat_def)
  have w: "wsBroadcasts (snd (handleBrowserAction ex_cfg (engine_ok 1 11 0) 5000 5001 5002 ''B''
                        ''client_1'' (ws_message (ACreateSession (Some ''bob'') [])) ex_A))
     = wsBroadcasts ex_A @
       [(''session.created'', SessionCreatedP ''B'' []),
        (''browser.create-session'',
         BrowserActionP ''client_1'' None None ''create-session'' 5002)]"
    by (simp add: handleBrowserAction_def browserAction_def createSession_w_def cs
          del: One_nat_def)
  show ?thesis unfolding g w by simp
qed


end